theory Spec2Isabelle
  imports Complex_Main "HOL-Library.AList" "HOL-Library.Sublist" "HOL-Library.Multiset"
begin

section \<open>Strings and the interpreter's library\<close>

text \<open>
  A Python \<open>str\<close> is a sequence of Unicode code points, so a string is a list of
  naturals. \<open>ustr\<close> writes an ASCII literal.
\<close>

type_synonym ustring = "nat list"

definition ustr :: "string \<Rightarrow> ustring" where
  "ustr s = map of_char s"

text \<open>
  \<open>str.isspace\<close>, which is also what \<open>\\s\<close> of a \<open>str\<close> pattern and
  \<open>str.strip()\<close> test: the Unicode white space of CPython.
\<close>

definition py_isspace :: "nat \<Rightarrow> bool" where
  "py_isspace c =
     ((0x09 \<le> c \<and> c \<le> 0x0D) \<or> (0x1C \<le> c \<and> c \<le> 0x20) \<or> c = 0x85 \<or> c = 0xA0
      \<or> c = 0x1680 \<or> (0x2000 \<le> c \<and> c \<le> 0x200A) \<or> c = 0x2028 \<or> c = 0x2029
      \<or> c = 0x202F \<or> c = 0x205F \<or> c = 0x3000)"

text \<open>
  The library functions the scripts call and do not define are parameters:
  \<^item> \<open>decimal\<close>: the decimal value of a code point in the Unicode database, which is
    what \<open>\\d\<close>, \<open>float()\<close> and \<open>int()\<close> read (\<open>None\<close> for a non-digit);
  \<^item> \<open>to_int\<close>: \<open>int(s)\<close>, \<open>None\<close> where it raises;
  \<^item> \<open>urljoin\<close>: \<open>urllib.parse.urljoin\<close>, \<open>None\<close> where it raises;
  \<^item> \<open>urlpath\<close>: \<open>urlparse(s).path\<close>, \<open>None\<close> where it raises.
\<close>

record pylib =
  decimal :: "nat \<Rightarrow> nat option"
  to_int :: "ustring \<Rightarrow> int option"
  urljoin :: "ustring \<Rightarrow> ustring \<Rightarrow> ustring option"
  urlpath :: "ustring \<Rightarrow> ustring option"

definition is_digit :: "pylib \<Rightarrow> nat \<Rightarrow> bool" where
  "is_digit L c = (decimal L c \<noteq> None)"

definition digits_value :: "pylib \<Rightarrow> ustring \<Rightarrow> nat" where
  "digits_value L ds =
     foldl (\<lambda>acc c. 10 * acc + (case decimal L c of Some v \<Rightarrow> v | None \<Rightarrow> 0)) 0 ds"

text \<open>\<open>s.strip()\<close>, \<open>s.strip("/")\<close>, \<open>sub in s\<close>, \<open>" ".join(parts)\<close>.\<close>

definition strip_where :: "(nat \<Rightarrow> bool) \<Rightarrow> ustring \<Rightarrow> ustring" where
  "strip_where P s = rev (dropWhile P (rev (dropWhile P s)))"

definition py_strip :: "ustring \<Rightarrow> ustring" where
  "py_strip s = strip_where py_isspace s"

fun contains :: "ustring \<Rightarrow> ustring \<Rightarrow> bool" where
  "contains sub [] = (sub = [])"
| "contains sub (c # cs) = (prefix sub (c # cs) \<or> contains sub cs)"

fun join_space :: "ustring list \<Rightarrow> ustring" where
  "join_space [] = []"
| "join_space [p] = p"
| "join_space (p # q # ps) = p @ 0x20 # join_space (q # ps)"

section \<open>Price normalisation\<close>

text \<open>
  \<^verbatim>\<open>PRICE_RE = re.compile(r"(\d[\d\s\u00A0]*)(?:[.,](\d{2}))?")\<close>

  \<open>PRICE_RE_match\<close> is the match anchored at the head of its argument: a digit, the
  longest run of digits and white space after it (the star is greedy and what follows it
  is optional, so it never gives a character back), then the optional group. It returns
  \<open>group(1)\<close> and \<open>group(2)\<close>. \<open>PRICE_RE_search\<close> is \<open>PRICE_RE.search\<close>: the match at
  the leftmost position that has one.
\<close>

definition price_run_char :: "pylib \<Rightarrow> nat \<Rightarrow> bool" where
  "price_run_char L c = (is_digit L c \<or> py_isspace c \<or> c = 0xA0)"

definition price_fraction :: "pylib \<Rightarrow> ustring \<Rightarrow> ustring option" where
  "price_fraction L s =
     (case s of
        p # a # b # _ \<Rightarrow>
          if (p = 0x2E \<or> p = 0x2C) \<and> is_digit L a \<and> is_digit L b then Some [a, b] else None
      | _ \<Rightarrow> None)"

definition PRICE_RE_match :: "pylib \<Rightarrow> ustring \<Rightarrow> (ustring \<times> ustring option) option" where
  "PRICE_RE_match L s =
     (case s of
        [] \<Rightarrow> None
      | d # rest \<Rightarrow>
          if is_digit L d
          then Some (d # takeWhile (price_run_char L) rest,
                     price_fraction L (dropWhile (price_run_char L) rest))
          else None)"

fun PRICE_RE_search :: "pylib \<Rightarrow> ustring \<Rightarrow> (ustring \<times> ustring option) option" where
  "PRICE_RE_search L [] = None"
| "PRICE_RE_search L (c # cs) =
     (case PRICE_RE_match L (c # cs) of
        Some m \<Rightarrow> Some m
      | None \<Rightarrow> PRICE_RE_search L cs)"

text \<open>
  \<open>float(f"{whole}.{cents}")\<close> on the strings \<open>parse_price\<close> builds: \<open>whole\<close> starts
  with a digit and holds digits and white space, \<open>cents\<close> is two digits. \<open>float\<close>
  accepts white space only around the literal, so it raises \<open>ValueError\<close> as soon as
  \<open>whole\<close> holds a white-space character, and returns the number otherwise. The number
  is kept exact here (the float is the double nearest to it).
\<close>

definition py_float :: "pylib \<Rightarrow> ustring \<Rightarrow> ustring \<Rightarrow> rat option" where
  "py_float L whole cents =
     (if whole \<noteq> [] \<and> list_all (is_digit L) whole \<and> list_all (is_digit L) cents
      then Some (of_nat (digits_value L whole) + of_nat (digits_value L cents) / 100)
      else None)"

text \<open>
  \<^verbatim>\<open>
  def parse_price(text: str):
      if not text:
          return None
      t = text.replace('\u00A0', ' ')
      m = PRICE_RE.search(t)
      if not m:
          return None
      whole = m.group(1).replace(' ', '')
      cents = m.group(2) or "00"
      try:
          return float(f"{whole}.{cents}")
      except Exception:
          return None
  \<close>
\<close>

definition nbsp_to_space :: "ustring \<Rightarrow> ustring" where
  "nbsp_to_space s = map (\<lambda>c. if c = 0xA0 then 0x20 else c) s"

definition parse_price :: "pylib \<Rightarrow> ustring \<Rightarrow> rat option" where
  "parse_price L txt =
     (if txt = [] then None
      else
        (case PRICE_RE_search L (nbsp_to_space txt) of
           None \<Rightarrow> None
         | Some (g1, g2) \<Rightarrow>
             py_float L (filter (\<lambda>c. c \<noteq> 0x20) g1)
               (case g2 of None \<Rightarrow> ustr ''00'' | Some c \<Rightarrow> c)))"

text \<open>
  A concrete library for evaluating examples: the decimal table on Basic Latin,
  \<open>int()\<close> on plain ASCII digit strings, \<open>urljoin\<close> on a reference that is an absolute
  path, \<open>urlparse().path\<close> left at "no path". The examples below hold no other decimal
  digit and call the other three on nothing else.
\<close>

definition ascii_decimal :: "nat \<Rightarrow> nat option" where
  "ascii_decimal c = (if 0x30 \<le> c \<and> c \<le> 0x39 then Some (c - 0x30) else None)"

definition basic_lib :: pylib where
  "basic_lib =
     \<lparr> decimal = ascii_decimal,
       to_int = (\<lambda>s. if s \<noteq> [] \<and> list_all (\<lambda>c. ascii_decimal c \<noteq> None) s
                       then Some (int (foldl (\<lambda>acc c. 10 * acc + (c - 0x30)) 0 s)) else None),
       urljoin = (\<lambda>base ref. Some (base @ ref)),
       urlpath = (\<lambda>s. Some []) \<rparr>"

text \<open>
  What the theorems assume of the decimal table: \<open>0\<close> is the digit zero, and no
  white-space character is a decimal digit. Both hold of the Unicode database.
\<close>

definition unicode_ok :: "pylib \<Rightarrow> bool" where
  "unicode_ok L = (decimal L 0x30 = Some 0 \<and> (\<forall>c. is_digit L c \<longrightarrow> \<not> py_isspace c))"

text \<open>
  The price contract in the specification's words: the first digit, the run of digits,
  spaces and non-breaking spaces after it, an optional fraction of two digits after
  \<open>.\<close> or \<open>,\<close>; the value has two decimal places and a missing or malformed fraction
  counts as \<open>.00\<close>; the result is null only when there is no digit.
  \<open>first_run\<close> is what the code's pattern takes as \<open>group(1)\<close>.
\<close>

definition plain_run_char :: "pylib \<Rightarrow> nat \<Rightarrow> bool" where
  "plain_run_char L c = (is_digit L c \<or> c = 0x20 \<or> c = 0xA0)"

definition first_run :: "pylib \<Rightarrow> ustring \<Rightarrow> ustring" where
  "first_run L txt = takeWhile (price_run_char L) (dropWhile (\<lambda>c. \<not> is_digit L c) txt)"

definition spec_parse_price :: "pylib \<Rightarrow> ustring \<Rightarrow> rat option" where
  "spec_parse_price L txt =
     (case dropWhile (\<lambda>c. \<not> is_digit L c) txt of
        [] \<Rightarrow> None
      | d # rest \<Rightarrow>
          Some (of_nat (digits_value L (filter (is_digit L) (d # takeWhile (plain_run_char L) rest)))
                + of_nat (case price_fraction L (dropWhile (plain_run_char L) rest) of
                            None \<Rightarrow> 0 | Some f \<Rightarrow> digits_value L f) / 100))"

section \<open>The listing parser\<close>

text \<open>
  \<open>html.parser.HTMLParser\<close> is the standard library's tokenizer: \<open>feed\<close> calls
  \<open>handle_starttag\<close>, \<open>handle_endtag\<close> and \<open>handle_data\<close> of the subclass, once per
  tag and text run (a self-closing tag gives a start and an end event; tag and attribute
  names arrive in lower case). A document is therefore its text together with the event
  sequence the tokenizer delivers for it during \<open>feed\<close>. An attribute without a value
  has the value \<open>None\<close>. \<open>ListingParser.close\<close> finalizes the open card before it
  calls \<open>super().close()\<close>, so the text the tokenizer may still hold back until then
  reaches no card.
\<close>

datatype html_event =
    StartTag ustring "(ustring \<times> ustring option) list"
  | EndTag ustring
  | Data ustring

record html =
  body :: ustring
  events :: "html_event list"

text \<open>
  \<open>dict(attrs).get(k)\<close>: the last occurrence of a repeated attribute wins, and a
  missing attribute and one without a value both give \<open>None\<close>. \<open>x or ""\<close> and the
  chains \<open>a or b or c\<close> keep the first truthy (non-empty) string.
\<close>

definition attr_get :: "(ustring \<times> ustring option) list \<Rightarrow> ustring \<Rightarrow> ustring option" where
  "attr_get attrs k = (case map_of (rev attrs) k of Some v \<Rightarrow> v | None \<Rightarrow> None)"

definition or_empty :: "ustring option \<Rightarrow> ustring" where
  "or_empty v = (case v of None \<Rightarrow> [] | Some s \<Rightarrow> s)"

fun first_truthy :: "ustring option list \<Rightarrow> ustring" where
  "first_truthy [] = []"
| "first_truthy (None # vs) = first_truthy vs"
| "first_truthy (Some s # vs) = (if s \<noteq> [] then s else first_truthy vs)"

text \<open>
  \<open>s.lower()\<close> is used for one test only, \<open>"price" in cls.lower()\<close>. Lowering the
  ASCII letters decides it: no character outside ASCII lowers to one of the letters of
  \<open>price\<close> followed by another of them.
\<close>

definition py_lower :: "ustring \<Rightarrow> ustring" where
  "py_lower s = map (\<lambda>c. if 0x41 \<le> c \<and> c \<le> 0x5A then c + 0x20 else c) s"

definition BASE_URL :: ustring where
  "BASE_URL = ustr ''https://truboproduct.ru''"

text \<open>
  The dictionary \<open>_cur\<close> of one card. The keys \<open>product_img\<close>, \<open>product_characs\<close> and
  \<open>slug\<close> may be absent.
\<close>

record item =
  product_id :: ustring
  name :: ustring
  price :: "rat option"
  product_name :: ustring
  product_img :: "ustring option"
  product_characs :: "(ustring \<times> ustring) list option"
  slug :: "ustring option"

record ListingParser =
  items :: "item list"
  in_item :: bool
  depth :: int
  cur :: "item option"
  text_buf :: "ustring list"
  in_price_block :: bool
  price_text_buf :: "ustring list"
  in_characs_list :: bool
  characs_depth :: int
  in_char_li :: bool
  char_li_buf :: "ustring list"
  in_name_link :: bool
  name_link_buf :: "ustring list"

definition new_parser :: ListingParser where
  "new_parser =
     \<lparr> items = [], in_item = False, depth = 0, cur = None, text_buf = [],
       in_price_block = False, price_text_buf = [], in_characs_list = False,
       characs_depth = 0, in_char_li = False, char_li_buf = [], in_name_link = False,
       name_link_buf = [] \<rparr>"

text \<open>
  \<^verbatim>\<open>re.split(r"\s{2,}|[|\n\r]", full_text)\<close>: a separator is a run of two or more
  white-space characters (taken whole), or a single \<open>|\<close>, line feed or carriage
  return.
\<close>

function name_pieces :: "ustring \<Rightarrow> ustring list" where
  "name_pieces [] = [[]]"
| "name_pieces (c # cs) =
     (if py_isspace c \<and> (case cs of [] \<Rightarrow> False | c' # _ \<Rightarrow> py_isspace c')
      then [] # name_pieces (dropWhile py_isspace cs)
      else if c = 0x7C \<or> c = 0x0A \<or> c = 0x0D
      then [] # name_pieces cs
      else (case name_pieces cs of [] \<Rightarrow> [[c]] | p # ps \<Rightarrow> (c # p) # ps))"
  by pat_completeness auto
termination
  by (relation "measure length") (auto simp: length_dropWhile_le less_Suc_eq_le)

text \<open>
  \<^verbatim>\<open>
  for piece in re.split(...):
      p = piece.strip()
      if p and not PRICE_RE.search(p) and len(p) >= 10:
          self._cur["name"] = p
          break
  \<close>
\<close>

fun first_name_piece :: "pylib \<Rightarrow> ustring list \<Rightarrow> ustring option" where
  "first_name_piece L [] = None"
| "first_name_piece L (piece # ps) =
     (let p = py_strip piece
      in if p \<noteq> [] \<and> PRICE_RE_search L p = None \<and> 10 \<le> length p then Some p
         else first_name_piece L ps)"

definition finalize_item :: "pylib \<Rightarrow> ListingParser \<Rightarrow> ListingParser" where
  "finalize_item L P =
     (case cur P of
        None \<Rightarrow> P
      | Some c \<Rightarrow>
          let c1 = (if name c = []
                    then (case first_name_piece L (name_pieces (py_strip (join_space (text_buf P)))) of
                            Some p \<Rightarrow> c\<lparr>name := p\<rparr>
                          | None \<Rightarrow> c)
                    else c);
              c2 = (if product_name c1 = [] then c1\<lparr>product_name := name c1\<rparr> else c1);
              price_text = (let t = py_strip (join_space (price_text_buf P))
                            in if t = [] then py_strip (join_space (text_buf P)) else t);
              c3 = c2\<lparr>price := parse_price L price_text\<rparr>
          in P\<lparr>items := items P @ [c3], in_item := False, cur := None, text_buf := [],
                in_price_block := False, price_text_buf := []\<rparr>)"

text \<open>The \<open>img\<close> and \<open>a\<close> branches of \<open>handle_starttag\<close>.\<close>

definition set_product_img ::
    "pylib \<Rightarrow> (ustring \<times> ustring option) list \<Rightarrow> item \<Rightarrow> item" where
  "set_product_img L attrs c =
     (if product_img c = None \<or> product_img c = Some []
      then (let img_src = py_strip (first_truthy [attr_get attrs (ustr ''data-src''),
                                                  attr_get attrs (ustr ''src''),
                                                  attr_get attrs (ustr ''data-original'')])
            in if img_src \<noteq> []
               then c\<lparr>product_img :=
                        Some (case urljoin L BASE_URL img_src of Some url \<Rightarrow> url | None \<Rightarrow> img_src)\<rparr>
               else c)
      else c)"

definition strip_slash :: "ustring \<Rightarrow> ustring" where
  "strip_slash s = strip_where (\<lambda>c. c = 0x2F) s"

definition set_slug :: "pylib \<Rightarrow> (ustring \<times> ustring option) list \<Rightarrow> item \<Rightarrow> item" where
  "set_slug L attrs c =
     (let href = py_strip (or_empty (attr_get attrs (ustr ''href'')))
      in if href \<noteq> [] \<and> (slug c = None \<or> slug c = Some [])
         then (let path = (if contains (ustr ''://'') href
                           then (case urlpath L href of Some p \<Rightarrow> p | None \<Rightarrow> href)
                           else href);
                   s0 = strip_slash path;
                   s1 = (if prefix (ustr ''product/'') s0 then drop 8 s0 else s0);
                   s2 = strip_slash s1
               in if s2 \<noteq> [] then c\<lparr>slug := Some s2\<rparr> else c)
         else c)"

text \<open>
  \<open>handle_starttag\<close>. A card starts at an \<open>li\<close> whose class holds
  \<open>listing-cards__item\<close> and that carries a product id; a card still open is finalized
  first. Inside a card every other start tag deepens \<open>_depth\<close>.
\<close>

definition start_item :: "pylib \<Rightarrow> ustring \<Rightarrow> (ustring \<times> ustring option) list \<Rightarrow> ListingParser \<Rightarrow> ListingParser" where
  "start_item L data_pid attrs P =
     (let P1 = (if in_item P \<and> cur P \<noteq> None then finalize_item L P else P)
      in P1\<lparr>in_item := True, depth := 1,
             cur := Some \<lparr> product_id = py_strip data_pid, name = [], price = None,
                           product_name = py_strip (or_empty (attr_get attrs (ustr ''data-product-name''))),
                           product_img = None, product_characs = None, slug = None \<rparr>,
             text_buf := [], in_price_block := False, price_text_buf := []\<rparr>)"

definition inside_starttag :: "pylib \<Rightarrow> ustring \<Rightarrow> (ustring \<times> ustring option) list \<Rightarrow> ListingParser \<Rightarrow> ListingParser" where
  "inside_starttag L tag attrs P =
     (let P1 = P\<lparr>depth := depth P + 1\<rparr>;
          P2 = (if tag = ustr ''meta'' \<and> attr_get attrs (ustr ''itemprop'') = Some (ustr ''name'')
                   \<and> or_empty (attr_get attrs (ustr ''content'')) \<noteq> []
                then P1\<lparr>cur := map_option
                        (\<lambda>c. c\<lparr>name := py_strip (or_empty (attr_get attrs (ustr ''content'')))\<rparr>) (cur P1)\<rparr>
                else P1);
          P3 = (if contains (ustr ''price'') (py_lower (or_empty (attr_get attrs (ustr ''class''))))
                then P2\<lparr>in_price_block := True\<rparr> else P2);
          P4 = (if tag = ustr ''img'' then P3\<lparr>cur := map_option (set_product_img L attrs) (cur P3)\<rparr> else P3)
      in if tag = ustr ''ul''
            \<and> contains (ustr ''listing-cards__list'') (or_empty (attr_get attrs (ustr ''class'')))
         then P4\<lparr>in_characs_list := True, characs_depth := 1,
                 cur := map_option (\<lambda>c. if product_characs c = None then c\<lparr>product_characs := Some []\<rparr> else c)
                          (cur P4)\<rparr>
         else
           (let P5 = (if in_characs_list P4
                      then (let Q = P4\<lparr>characs_depth := characs_depth P4 + 1\<rparr>
                            in if tag = ustr ''li'' then Q\<lparr>in_char_li := True, char_li_buf := []\<rparr> else Q)
                      else P4)
            in if tag = ustr ''a''
                  \<and> contains (ustr ''listing-cards__link'') (or_empty (attr_get attrs (ustr ''class'')))
               then P5\<lparr>in_name_link := True, name_link_buf := [],
                       cur := map_option (set_slug L attrs) (cur P5)\<rparr>
               else P5))"

definition handle_starttag :: "pylib \<Rightarrow> ustring \<Rightarrow> (ustring \<times> ustring option) list \<Rightarrow> ListingParser \<Rightarrow> ListingParser" where
  "handle_starttag L tag attrs P =
     (let data_pid = first_truthy [attr_get attrs (ustr ''data-product-id''),
                                   attr_get attrs (ustr ''data-id''),
                                   attr_get attrs (ustr ''data-productid'')]
      in if tag = ustr ''li''
            \<and> contains (ustr ''listing-cards__item'') (or_empty (attr_get attrs (ustr ''class'')))
            \<and> data_pid \<noteq> []
         then start_item L data_pid attrs P
         else if in_item P then inside_starttag L tag attrs P
         else P)"

text \<open>
  The attribute list items, closed in \<open>handle_endtag\<close>: the text is split at the first
  \<open>": "\<close>, else at the first colon, hyphen, en dash or em dash
  (\<^verbatim>\<open>re.split(r"\s*[:\-...]\s*", text, maxsplit=1)\<close>, both parts stripped), else it is
  the value of an empty key. Leading bullets are taken off the key unless nothing is
  left.
\<close>

fun split_colon_space :: "ustring \<Rightarrow> (ustring \<times> ustring) option" where
  "split_colon_space [] = None"
| "split_colon_space (c # cs) =
     (if prefix [0x3A, 0x20] (c # cs) then Some ([], drop 2 (c # cs))
      else map_option (\<lambda>(a, b). (c # a, b)) (split_colon_space cs))"

definition is_charac_sep :: "nat \<Rightarrow> bool" where
  "is_charac_sep c = (c = 0x3A \<or> c = 0x2D \<or> c = 0x2013 \<or> c = 0x2014)"

definition is_bullet :: "nat \<Rightarrow> bool" where
  "is_bullet c = (c = 0x2D \<or> c = 0x2013 \<or> c = 0x2014 \<or> c = 0x2022)"

definition split_charac :: "ustring \<Rightarrow> ustring \<times> ustring" where
  "split_charac t =
     (case split_colon_space t of
        Some (a, b) \<Rightarrow> (py_strip a, py_strip b)
      | None \<Rightarrow>
          (case dropWhile (\<lambda>c. \<not> is_charac_sep c) t of
             [] \<Rightarrow> ([], t)
           | _ # after \<Rightarrow> (py_strip (takeWhile (\<lambda>c. \<not> is_charac_sep c) t), py_strip after)))"

definition clean_char :: "ustring \<Rightarrow> ustring" where
  "clean_char ch =
     (let a = dropWhile py_isspace ch;
          cleaned = py_strip (case a of
                                [] \<Rightarrow> ch
                              | b # _ \<Rightarrow> if is_bullet b then dropWhile py_isspace (dropWhile is_bullet a)
                                         else ch)
      in if cleaned \<noteq> [] then cleaned else ch)"

definition close_char_li :: "ListingParser \<Rightarrow> ListingParser" where
  "close_char_li P =
     (let t = py_strip (join_space (char_li_buf P));
          P1 = (if t \<noteq> []
                then P\<lparr>cur := map_option
                        (\<lambda>c. c\<lparr>product_characs :=
                                  Some ((case product_characs c of None \<Rightarrow> [] | Some cs \<Rightarrow> cs)
                                        @ [(clean_char (fst (split_charac t)), snd (split_charac t))])\<rparr>)
                        (cur P)\<rparr>
                else P)
      in P1\<lparr>in_char_li := False, char_li_buf := []\<rparr>)"

definition close_name_link :: "ListingParser \<Rightarrow> ListingParser" where
  "close_name_link P =
     (let t = py_strip (join_space (name_link_buf P));
          P1 = (if t \<noteq> [] then P\<lparr>cur := map_option (\<lambda>c. c\<lparr>product_name := t\<rparr>) (cur P)\<rparr> else P)
      in P1\<lparr>in_name_link := False, name_link_buf := []\<rparr>)"

text \<open>
  \<open>handle_endtag\<close>. The test that would leave a price block reads \<open>_last_class\<close>,
  which nothing ever sets, so \<open>getattr\<close> gives \<open>''\<close> and the block is never left
  before the card ends. The card is finalized when \<open>_depth\<close> is back at 0.
\<close>

definition handle_endtag :: "pylib \<Rightarrow> ustring \<Rightarrow> ListingParser \<Rightarrow> ListingParser" where
  "handle_endtag L tag P =
     (let P1 = (if in_char_li P \<and> tag = ustr ''li'' then close_char_li P else P);
          P2 = (if in_characs_list P1
                then (let Q = P1\<lparr>characs_depth := characs_depth P1 - 1\<rparr>
                      in if characs_depth Q \<le> 0 then Q\<lparr>in_characs_list := False\<rparr> else Q)
                else P1);
          P3 = (if in_name_link P2 \<and> tag = ustr ''a'' then close_name_link P2 else P2)
      in if in_item P3
         then (let P4 = P3\<lparr>depth := depth P3 - 1\<rparr>;
                   P5 = (if contains (ustr ''price'') (py_lower []) then P4\<lparr>in_price_block := False\<rparr> else P4)
               in if depth P5 = 0 then finalize_item L P5 else P5)
         else P3)"

definition handle_data :: "ustring \<Rightarrow> ListingParser \<Rightarrow> ListingParser" where
  "handle_data d P =
     (if in_item P \<and> d \<noteq> []
      then (let s = py_strip d
            in if s = [] then P
               else (let P1 = P\<lparr>text_buf := text_buf P @ [s]\<rparr>;
                         P2 = (if in_price_block P1 then P1\<lparr>price_text_buf := price_text_buf P1 @ [s]\<rparr> else P1);
                         P3 = (if in_char_li P2 then P2\<lparr>char_li_buf := char_li_buf P2 @ [s]\<rparr> else P2)
                     in if in_name_link P3 then P3\<lparr>name_link_buf := name_link_buf P3 @ [s]\<rparr> else P3))
      else P)"

fun handle_event :: "pylib \<Rightarrow> ListingParser \<Rightarrow> html_event \<Rightarrow> ListingParser" where
  "handle_event L P (StartTag tag attrs) = handle_starttag L tag attrs P"
| "handle_event L P (EndTag tag) = handle_endtag L tag P"
| "handle_event L P (Data d) = handle_data d P"

definition feed :: "pylib \<Rightarrow> html_event list \<Rightarrow> ListingParser \<Rightarrow> ListingParser" where
  "feed L evs P = foldl (handle_event L) P evs"

definition close_parser :: "pylib \<Rightarrow> ListingParser \<Rightarrow> ListingParser" where
  "close_parser L P = (if in_item P \<and> cur P \<noteq> None then finalize_item L P else P)"

definition parser_items :: "pylib \<Rightarrow> html \<Rightarrow> item list" where
  "parser_items L h = items (close_parser L (feed L (events h) new_parser))"

text \<open>
  \<^verbatim>\<open>
  def extract_products_from_html(html: str):
      parser = ListingParser()
      parser.feed(html)
      parser.close()
      out = []
      for it in parser.items:
          name = it["name"]
          price = it["price"]
          if name and (price is not None):
              out.append(it)
      return out
  \<close>
\<close>

definition extract_products_from_html :: "pylib \<Rightarrow> html \<Rightarrow> item list" where
  "extract_products_from_html L h =
     filter (\<lambda>it. name it \<noteq> [] \<and> price it \<noteq> None) (parser_items L h)"

section \<open>Fetching a listing page\<close>

text \<open>
  One \<open>client.get(url)\<close> either returns a response (status code and text) or raises.
  The four \<open>httpx\<close> exceptions the code names are kept apart from every other one. The
  server's behaviour during one call of \<open>async_fetch_listing\<close> is the function that gives
  the outcome of the first, second, ... request.

  \<^verbatim>\<open>
  async def async_fetch_listing(client, slug, page) -> str | None:
      url = urljoin(BASE_URL, f"/catalog/{slug}/page__{page}/")
      backoff = ASYNC_BASE_DELAY
      for attempt in range(4):
          try:
              r = await client.get(url)
              if r.status_code == 200 and r.text:
                  return r.text
              if r.status_code in (429, 500, 502, 503, 504):
                  await asyncio.sleep(backoff)
                  backoff = min(backoff * 2, 8.0)
                  continue
              return None
          except (httpx.ReadTimeout, httpx.ConnectTimeout, httpx.RemoteProtocolError, httpx.ConnectError):
              await asyncio.sleep(backoff)
              backoff = min(backoff * 2, 8.0)
              continue
          except Exception:
              return None
      return None
  \<close>
  The model also records the sleeps and the number of requests made.
\<close>

datatype http_exception =
  ReadTimeout | ConnectTimeout | RemoteProtocolError | ConnectError | OtherException

datatype attempt = Response nat html | Raises http_exception

record fetch_trace =
  fetched :: "html option"
  slept :: "rat list"
  requests :: nat

definition ASYNC_BASE_DELAY :: rat where
  "ASYNC_BASE_DELAY = 1 / 4"

definition retry_status :: "nat \<Rightarrow> bool" where
  "retry_status st = (st = 429 \<or> st = 500 \<or> st = 502 \<or> st = 503 \<or> st = 504)"

definition retry_exception :: "http_exception \<Rightarrow> bool" where
  "retry_exception e = (e = ReadTimeout \<or> e = ConnectTimeout \<or> e = RemoteProtocolError \<or> e = ConnectError)"

definition transient :: "attempt \<Rightarrow> bool" where
  "transient a = (case a of Response st h \<Rightarrow> \<not> (st = 200 \<and> body h \<noteq> []) \<and> retry_status st
                           | Raises e \<Rightarrow> retry_exception e)"

fun fetch_loop :: "(nat \<Rightarrow> attempt) \<Rightarrow> nat \<Rightarrow> nat \<Rightarrow> rat \<Rightarrow> rat list \<Rightarrow> fetch_trace" where
  "fetch_loop srv i 0 backoff sl = \<lparr>fetched = None, slept = sl, requests = i\<rparr>"
| "fetch_loop srv i (Suc n) backoff sl =
     (case srv i of
        Response st h \<Rightarrow>
          if st = 200 \<and> body h \<noteq> [] then \<lparr>fetched = Some h, slept = sl, requests = Suc i\<rparr>
          else if retry_status st
          then fetch_loop srv (Suc i) n (min (backoff * 2) 8) (sl @ [backoff])
          else \<lparr>fetched = None, slept = sl, requests = Suc i\<rparr>
      | Raises e \<Rightarrow>
          if retry_exception e
          then fetch_loop srv (Suc i) n (min (backoff * 2) 8) (sl @ [backoff])
          else \<lparr>fetched = None, slept = sl, requests = Suc i\<rparr>)"

definition async_fetch_listing :: "(nat \<Rightarrow> attempt) \<Rightarrow> fetch_trace" where
  "async_fetch_listing srv = fetch_loop srv 0 4 ASYNC_BASE_DELAY []"

text \<open>
  \<^verbatim>\<open>
  def get_total_pages(html: str) -> int:
      if not html:
          return 0
      try:
          numbers = re.findall(r"page__\s*(\d+)", html)
          pages = [int(n) for n in numbers]
          return max(pages) if pages else 1
      except Exception:
          return 1

  async def async_get_total_pages(client, slug) -> int:
      html = await async_fetch_listing(client, slug, 1)
      return get_total_pages(html) if html else 0
  \<close>
  \<open>findall_pages\<close> is \<open>re.findall\<close> of that pattern: the digit groups of the matches,
  left to right and not overlapping.
\<close>

function findall_pages :: "pylib \<Rightarrow> ustring \<Rightarrow> ustring list" where
  "findall_pages L [] = []"
| "findall_pages L (c # cs) =
     (if prefix (ustr ''page__'') (c # cs)
         \<and> takeWhile (is_digit L) (dropWhile py_isspace (drop 6 (c # cs))) \<noteq> []
      then takeWhile (is_digit L) (dropWhile py_isspace (drop 6 (c # cs)))
           # findall_pages L (dropWhile (is_digit L) (dropWhile py_isspace (drop 6 (c # cs))))
      else findall_pages L cs)"
  by pat_completeness auto
termination
proof (relation "measure (\<lambda>(L, s). length s)")
  fix L :: pylib and c :: nat and cs :: ustring
  have "length (dropWhile (is_digit L) (dropWhile py_isspace (drop 6 (c # cs))))
        \<le> length (dropWhile py_isspace (drop 6 (c # cs)))"
    by (rule length_dropWhile_le)
  also have "\<dots> \<le> length (drop 6 (c # cs))"
    by (rule length_dropWhile_le)
  also have "\<dots> < length (c # cs)"
    by simp
  finally show "((L, dropWhile (is_digit L) (dropWhile py_isspace (drop 6 (c # cs)))), L, c # cs)
        \<in> measure (\<lambda>(L, s). length s)"
    by simp
qed auto

definition get_total_pages :: "pylib \<Rightarrow> html \<Rightarrow> int" where
  "get_total_pages L h =
     (if body h = [] then 0
      else (let pages = map (digits_value L) (findall_pages L (body h))
            in if pages = [] then 1 else int (foldr max pages 0)))"

definition async_get_total_pages :: "pylib \<Rightarrow> (nat \<Rightarrow> attempt) \<Rightarrow> int" where
  "async_get_total_pages L srv =
     (case fetched (async_fetch_listing srv) of Some h \<Rightarrow> get_total_pages L h | None \<Rightarrow> 0)"

section \<open>The checkpoint and the store\<close>

text \<open>
  The dictionary \<open>progress\<close>: \<open>completed_categories\<close> is a list of category ids and
  \<open>category_pages\<close> a dictionary from \<open>str(category_id)\<close> to the next page, kept here
  as an association list in insertion order and keyed by the id itself (\<open>str\<close> is
  injective on integers).

  \<^verbatim>\<open>
  def save_progress(progress: dict):
      path = os.path.join("data", "parse_progress.json")
      os.makedirs(os.path.dirname(path), exist_ok=True)
      tmp = json.dumps(progress, ensure_ascii=False, indent=2)
      with open(path, "w", encoding="utf-8") as f:
          f.write(tmp)
  \<close>
  \<open>open(path, "w")\<close> truncates the checkpoint file itself, and the text is written into
  it afterwards. The states a reader of \<open>data/parse_progress.json\<close> can find are
  \<open>Missing\<close> (no file), \<open>Truncated\<close> (a file of zero bytes) and \<open>Written p\<close> (the
  complete \<open>json.dumps\<close> of \<open>p\<close>, which is never of zero bytes). \<open>save_progress\<close> is the
  list of states the file passes through, in order.
\<close>

record progress =
  completed_categories :: "int list"
  category_pages :: "(int \<times> int) list"

datatype file_state = Missing | Truncated | Written progress

definition save_progress :: "progress \<Rightarrow> file_state list" where
  "save_progress p = [Truncated, Written p]"

text \<open>
  The row \<open>process_page\<close> builds for one item; the field \<open>p_x\<close> is the entry \<open>"x"\<close> of
  the dictionary, that is the statement's parameter \<open>%(x)s\<close>. \<open>int(product_id)\<close> is
  kept when it succeeds, the string otherwise. \<open>json.dumps\<close> of the attribute list is
  represented by the list.
\<close>

record row =
  p_name :: ustring
  p_price :: "rat option"
  p_category_id :: int
  p_category_slug :: ustring
  p_product_id :: "int + ustring"
  p_product_name :: ustring
  p_product_img :: "ustring option"
  p_product_characs :: "(ustring \<times> ustring) list"
  p_slug :: "ustring option"

definition make_row :: "pylib \<Rightarrow> int \<Rightarrow> ustring \<Rightarrow> item \<Rightarrow> row" where
  "make_row L category_id category_slug it =
     \<lparr> p_name = name it,
       p_price = price it,
       p_category_id = category_id,
       p_category_slug = category_slug,
       p_product_id = (case to_int L (product_id it) of Some n \<Rightarrow> Inl n | None \<Rightarrow> Inr (product_id it)),
       p_product_name = product_name it,
       p_product_img = product_img it,
       p_product_characs = (case product_characs it of None \<Rightarrow> [] | Some cs \<Rightarrow> cs),
       p_slug = slug it \<rparr>"

text \<open>
  \<^verbatim>\<open>
  INSERT INTO tr_products_raw (sku, price, category_id, category_slug, product_id,
                               product_name, product_img, product_characs, slug)
  VALUES (%(name)s, %(price)s, %(category_id)s, %(category_slug)s, %(product_id)s,
          %(product_name)s, %(product_img)s, %(product_characs)s::jsonb, %(slug)s)
  ON CONFLICT (sku) DO UPDATE SET price = EXCLUDED.price, ... , slug = EXCLUDED.slug
  \<close>
  The table is keyed by \<open>sku\<close>; the stored record holds the other eight columns.
\<close>

record stored =
  s_price :: "rat option"
  s_category_id :: int
  s_category_slug :: ustring
  s_product_id :: "int + ustring"
  s_product_name :: ustring
  s_product_img :: "ustring option"
  s_product_characs :: "(ustring \<times> ustring) list"
  s_slug :: "ustring option"

definition sku_value :: "row \<Rightarrow> ustring" where
  "sku_value r = p_name r"

definition stored_of :: "row \<Rightarrow> stored" where
  "stored_of r =
     \<lparr> s_price = p_price r, s_category_id = p_category_id r, s_category_slug = p_category_slug r,
       s_product_id = p_product_id r, s_product_name = p_product_name r,
       s_product_img = p_product_img r, s_product_characs = p_product_characs r,
       s_slug = p_slug r \<rparr>"

definition upsert_products :: "row list \<Rightarrow> (ustring \<times> stored) list \<Rightarrow> (ustring \<times> stored) list" where
  "upsert_products rows tbl = foldl (\<lambda>t r. AList.update (sku_value r) (stored_of r) t) tbl rows"

section \<open>Crawling one category\<close>

text \<open>
  What a run can observe and change: the dictionary \<open>progress\<close> in memory, the history
  of the checkpoint file (its latest state last), the pages \<open>async_fetch_listing\<close> was
  called for, the batches handed to \<open>upsert_products\<close> and the table. The remote site
  and the database are the environment: the answers to the requests that determine the
  page count, the answers to the requests for each page, and whether the upsert of a
  page's batch returns or raises. The proxy rotation and the client pool do not bear on
  any of these and are left out.
\<close>

record crawl =
  mem :: progress
  ckpt :: "file_state list"
  gets :: "int list"
  sink :: "row list list"
  tbl :: "(ustring \<times> stored) list"

record site =
  size_srv :: "nat \<Rightarrow> attempt"
  page_srv :: "int \<Rightarrow> nat \<Rightarrow> attempt"
  db_ok :: "int \<Rightarrow> bool"

datatype page_result = Returned bool | Raised

text \<open>
  \<^verbatim>\<open>
  async def process_page(slug, page, client_pool, proxy_rotator, category_id, category_slug,
                         progress, progress_lock):
      ...
      html = await async_fetch_listing(client, slug, page)
      if not html:
          return False
      items = extract_products_from_html(html)
      if not items:
          return False
      batch = [...]
      await asyncio.to_thread(upsert_products, batch)
      async with progress_lock:
          category_pages = progress.get("category_pages", {})
          category_pages[str(category_id)] = page + 1
          progress["category_pages"] = category_pages
          save_progress(progress)
      return True
  \<close>
\<close>

definition process_page ::
    "pylib \<Rightarrow> site \<Rightarrow> int \<Rightarrow> ustring \<Rightarrow> int \<Rightarrow> crawl \<Rightarrow> page_result \<times> crawl" where
  "process_page L env category_id cat_slug page st =
     (let st1 = st\<lparr>gets := gets st @ [page]\<rparr>
      in case fetched (async_fetch_listing (page_srv env page)) of
           None \<Rightarrow> (Returned False, st1)
         | Some h \<Rightarrow>
             (let its = extract_products_from_html L h
              in if its = [] then (Returned False, st1)
                 else (let batch = map (make_row L category_id cat_slug) its;
                           st2 = st1\<lparr>sink := sink st1 @ [batch]\<rparr>
                       in if \<not> db_ok env page then (Raised, st2)
                          else (let p = (mem st2)\<lparr>category_pages :=
                                          AList.update category_id (page + 1) (category_pages (mem st2))\<rparr>
                                in (Returned True,
                                    st2\<lparr>tbl := upsert_products batch (tbl st2), mem := p,
                                        ckpt := ckpt st2 @ save_progress p\<rparr>)))))"

text \<open>
  \<^verbatim>\<open>
  async def process_category_async(category_id, slug, client_pool, proxy_rotator, progress,
                                   progress_lock, pages_concurrency=MAX_CONCURRENT_PAGES_PER_CATEGORY):
      start_page = int(progress.get("category_pages", {}).get(str(category_id), 1))
      client = await client_pool.get_client(proxy_rotator.next())
      total_pages = await async_get_total_pages(client, slug)
      if total_pages <= 0:
          return
      semaphore = asyncio.Semaphore(pages_concurrency)
      async def worker(page_number: int):
          async with semaphore:
              ok = await process_page(...)
              return ok
      tasks = [asyncio.create_task(worker(p)) for p in range(start_page, total_pages + 1)]
      for fut in asyncio.as_completed(tasks):
          try:
              await fut
          except Exception:
              continue
      async with progress_lock:
          completed = set(progress.get("completed_categories", []))
          completed.add(category_id)
          progress["completed_categories"] = sorted(list(completed))
          cp = progress.get("category_pages", {})
          if str(category_id) in cp:
              del cp[str(category_id)]
          progress["category_pages"] = cp
          save_progress(progress)
  \<close>
  The tasks take the semaphore in the order of their creation, so the workers in flight
  are the first \<open>pages_concurrency\<close> of the pages not yet finished. Which of them
  finishes next is up to the network: \<open>pick\<close> chooses it. A worker changes
  \<open>progress\<close> only in its last step, under the lock and without suspending, so a run is
  determined by the order in which the workers finish, and each worker's effects are
  applied when it finishes. What a worker returns or raises is dropped. With a
  semaphore of 0 no worker ever starts and the function does not return (\<open>None\<close>).
\<close>

definition MAX_CONCURRENT_PAGES_PER_CATEGORY :: nat where
  "MAX_CONCURRENT_PAGES_PER_CATEGORY = 10"

definition next_done :: "nat \<Rightarrow> (int list \<Rightarrow> nat) \<Rightarrow> int list \<Rightarrow> int" where
  "next_done k pick pending = take k pending ! (pick (take k pending) mod length (take k pending))"

function run_workers ::
    "pylib \<Rightarrow> site \<Rightarrow> int \<Rightarrow> ustring \<Rightarrow> nat \<Rightarrow> (int list \<Rightarrow> nat) \<Rightarrow> int list \<Rightarrow> crawl \<Rightarrow> crawl option" where
  "run_workers L env category_id cat_slug k pick pending st =
     (if pending = [] then Some st
      else if k = 0 then None
      else run_workers L env category_id cat_slug k pick
             (remove1 (next_done k pick pending) pending)
             (snd (process_page L env category_id cat_slug (next_done k pick pending) st)))"
  by pat_completeness auto
termination
proof (relation "measure (\<lambda>(L, env, category_id, cat_slug, k, pick, pending, st). length pending)")
  fix k :: nat and pick :: "int list \<Rightarrow> nat" and pending :: "int list"
    and L :: pylib and env :: site and category_id :: int and cat_slug :: ustring and st :: crawl
  assume ne: "pending \<noteq> []" and k: "k \<noteq> 0"
  then have w: "take k pending \<noteq> []"
    by (cases pending) (auto simp: take_Cons')
  then have "pick (take k pending) mod length (take k pending) < length (take k pending)"
    by (intro mod_less_divisor) (simp only: length_greater_0_conv not_False_eq_True)
  then have "next_done k pick pending \<in> set (take k pending)"
    unfolding next_done_def by (rule nth_mem)
  then have "next_done k pick pending \<in> set pending"
    by (rule in_set_takeD)
  then have "length (remove1 (next_done k pick pending) pending) < length pending"
    using ne by (simp add: length_remove1)
  then show "((L, env, category_id, cat_slug, k, pick, remove1 (next_done k pick pending) pending,
               snd (process_page L env category_id cat_slug (next_done k pick pending) st)),
              L, env, category_id, cat_slug, k, pick, pending, st)
         \<in> measure (\<lambda>(L, env, category_id, cat_slug, k, pick, pending, st). length pending)"
    by simp
qed simp

definition mark_completed :: "int \<Rightarrow> crawl \<Rightarrow> crawl" where
  "mark_completed category_id st =
     (let p = \<lparr> completed_categories = sort (remdups (category_id # completed_categories (mem st))),
                category_pages = AList.delete category_id (category_pages (mem st)) \<rparr>
      in st\<lparr>mem := p, ckpt := ckpt st @ save_progress p\<rparr>)"

definition start_page :: "progress \<Rightarrow> int \<Rightarrow> int" where
  "start_page p category_id = (case map_of (category_pages p) category_id of Some n \<Rightarrow> n | None \<Rightarrow> 1)"

definition process_category_async ::
    "pylib \<Rightarrow> site \<Rightarrow> int \<Rightarrow> ustring \<Rightarrow> nat \<Rightarrow> (int list \<Rightarrow> nat) \<Rightarrow> crawl \<Rightarrow> crawl option" where
  "process_category_async L env category_id cat_slug pages_concurrency pick st =
     (let first_page = start_page (mem st) category_id;
          total_pages = async_get_total_pages L (size_srv env);
          st1 = st\<lparr>gets := gets st @ [1]\<rparr>
      in if total_pages \<le> 0 then Some st1
         else (case run_workers L env category_id cat_slug pages_concurrency pick
                      [first_page..total_pages] st1 of
                 None \<Rightarrow> None
               | Some st2 \<Rightarrow> Some (mark_completed category_id st2)))"

section \<open>Example documents\<close>

text \<open>
  Four small listing pages, each with the events the tokenizer gives for its text.
  \<open>listing_page n\<close> has a pagination link to page \<open>n\<close> and one complete card. In
  \<open>two_card_page\<close> a second card has no price (its price block reads "on request").
  \<open>no_price_page\<close> holds only such a card, and \<open>bare_page\<close> has neither a pagination
  link nor a card. The \<open>meta\<close> element has no end tag, so the \<open>li\<close> end tag leaves
  \<open>_depth\<close> at 1 and a card is closed by the next card or by \<open>close()\<close>.
\<close>

definition rouble :: nat where
  "rouble = 0x20BD"

definition card_events :: "string \<Rightarrow> string \<Rightarrow> ustring \<Rightarrow> html_event list" where
  "card_events pid nm price_text =
     [StartTag (ustr ''li'') [(ustr ''class'', Some (ustr ''listing-cards__item'')),
                              (ustr ''data-product-id'', Some (ustr pid))],
      StartTag (ustr ''meta'') [(ustr ''itemprop'', Some (ustr ''name'')), (ustr ''content'', Some (ustr nm))],
      StartTag (ustr ''span'') [(ustr ''class'', Some (ustr ''price''))],
      Data price_text,
      EndTag (ustr ''span''),
      EndTag (ustr ''li'')]"

definition card_text :: "string \<Rightarrow> string \<Rightarrow> ustring \<Rightarrow> ustring" where
  "card_text pid nm price_text =
     ustr ''<li class=listing-cards__item data-product-id='' @ ustr pid
     @ ustr ''><meta itemprop=name content='' @ ustr nm
     @ ustr ''><span class=price>'' @ price_text @ ustr ''</span></li>''"

definition listing_page :: "string \<Rightarrow> html" where
  "listing_page last_page =
     \<lparr> body = ustr ''<a href=/catalog/pipes/page__'' @ ustr last_page @ ustr ''/>last</a>''
              @ card_text ''101'' ''Pipe-20x2'' (ustr ''1 250,50 '' @ [rouble]),
       events = [StartTag (ustr ''a'') [(ustr ''href'', Some (ustr ''/catalog/pipes/page__'' @ ustr last_page @ ustr ''/''))],
                 Data (ustr ''last''), EndTag (ustr ''a'')]
                @ card_events ''101'' ''Pipe-20x2'' (ustr ''1 250,50 '' @ [rouble]) \<rparr>"

definition two_card_page :: html where
  "two_card_page =
     \<lparr> body = card_text ''101'' ''Pipe-20x2'' (ustr ''1 250,50 '' @ [rouble])
              @ card_text ''102'' ''Pipe-25x3'' (ustr ''on request''),
       events = card_events ''101'' ''Pipe-20x2'' (ustr ''1 250,50 '' @ [rouble])
                @ card_events ''102'' ''Pipe-25x3'' (ustr ''on request'') \<rparr>"

definition no_price_page :: html where
  "no_price_page =
     \<lparr> body = card_text ''102'' ''Pipe-25x3'' (ustr ''on request''),
       events = card_events ''102'' ''Pipe-25x3'' (ustr ''on request'') \<rparr>"

definition bare_page :: html where
  "bare_page =
     \<lparr> body = ustr ''<p>empty</p>'',
       events = [StartTag (ustr ''p'') [], Data (ustr ''empty''), EndTag (ustr ''p'')] \<rparr>"

definition card_item :: "string \<Rightarrow> string \<Rightarrow> rat option \<Rightarrow> item" where
  "card_item pid nm pr =
     \<lparr> product_id = ustr pid, name = ustr nm, price = pr, product_name = ustr nm,
       product_img = None, product_characs = None, slug = None \<rparr>"

text \<open>
  A site that answers every request with status 200 and the same document, a database
  that accepts every batch, and the state of a first run: an empty \<open>progress\<close>, no
  checkpoint file yet.
\<close>

definition steady_site :: "html \<Rightarrow> site" where
  "steady_site h = \<lparr> size_srv = (\<lambda>i. Response 200 h), page_srv = (\<lambda>p i. Response 200 h),
                     db_ok = (\<lambda>p. True) \<rparr>"

definition fresh_crawl :: crawl where
  "fresh_crawl = \<lparr> mem = \<lparr>completed_categories = [], category_pages = []\<rparr>,
                   ckpt = [Missing], gets = [], sink = [], tbl = [] \<rparr>"

section \<open>Notions the properties are stated with\<close>

text \<open>
  \<open>retries srv\<close>: how many of the (at most four) requests of one fetch meet a
  transient condition before the first that does not.
\<close>

definition retries :: "(nat \<Rightarrow> attempt) \<Rightarrow> nat" where
  "retries srv = length (takeWhile transient (map srv [0..<4]))"

text \<open>
  \<open>page_ok\<close>: the page is fetched, yields at least one retained item and its upsert
  returns. \<open>completion_order\<close>: the order in which \<open>run_workers\<close> lets the workers
  finish. \<open>cursor_log\<close>: the value of \<open>category_pages[category_id]\<close> in each complete
  document the checkpoint file has held, oldest first.
\<close>

definition page_ok :: "pylib \<Rightarrow> site \<Rightarrow> int \<Rightarrow> bool" where
  "page_ok L env page =
     (case fetched (async_fetch_listing (page_srv env page)) of
        None \<Rightarrow> False
      | Some h \<Rightarrow> extract_products_from_html L h \<noteq> [] \<and> db_ok env page)"

function completion_order :: "nat \<Rightarrow> (int list \<Rightarrow> nat) \<Rightarrow> int list \<Rightarrow> int list" where
  "completion_order k pick pending =
     (if pending = [] \<or> k = 0 then []
      else next_done k pick pending
           # completion_order k pick (remove1 (next_done k pick pending) pending))"
  by pat_completeness auto
termination
proof (relation "measure (\<lambda>(k, pick, pending). length pending)")
  fix k :: nat and pick :: "int list \<Rightarrow> nat" and pending :: "int list"
  assume "\<not> (pending = [] \<or> k = 0)"
  then have ne: "pending \<noteq> []" and w: "take k pending \<noteq> []"
    by (cases pending; auto simp: take_Cons')+
  then have "pick (take k pending) mod length (take k pending) < length (take k pending)"
    by (intro mod_less_divisor) (simp only: length_greater_0_conv not_False_eq_True)
  then have "next_done k pick pending \<in> set (take k pending)"
    unfolding next_done_def by (rule nth_mem)
  then have "next_done k pick pending \<in> set pending"
    by (rule in_set_takeD)
  then have "length (remove1 (next_done k pick pending) pending) < length pending"
    using ne by (simp add: length_remove1)
  then show "((k, pick, remove1 (next_done k pick pending) pending), k, pick, pending)
         \<in> measure (\<lambda>(k, pick, pending). length pending)"
    by simp
qed simp

fun written :: "file_state list \<Rightarrow> progress list" where
  "written [] = []"
| "written (Written p # fs) = p # written fs"
| "written (_ # fs) = written fs"

definition cursor_log :: "int \<Rightarrow> crawl \<Rightarrow> int option list" where
  "cursor_log category_id st = map (\<lambda>p. map_of (category_pages p) category_id) (written (ckpt st))"

text \<open>
  In the specification's words: the resume cursor is the lowest page number among the
  scheduled pages not yet finished; a reader of the checkpoint file sees the complete
  previous content or the complete new content.
\<close>

definition min_unfinished :: "int list \<Rightarrow> int option" where
  "min_unfinished unfinished = (if unfinished = [] then None else Some (Min (set unfinished)))"

definition observes_only :: "file_state \<Rightarrow> file_state \<Rightarrow> file_state list \<Rightarrow> bool" where
  "observes_only old new states = list_all (\<lambda>s. s = old \<or> s = new) states"

text \<open>
  \<open>ok_text\<close>: the text of an outcome that ends the fetch with success (status 200 and
  a non-empty text). \<open>resumed_crawl c n\<close>: the state of a run that loaded a checkpoint
  whose \<open>category_pages\<close> maps category \<open>c\<close> to page \<open>n\<close>.
\<close>

definition ok_text :: "attempt \<Rightarrow> html option" where
  "ok_text a = (case a of Response st h \<Rightarrow> if st = 200 \<and> body h \<noteq> [] then Some h else None
                         | Raises e \<Rightarrow> None)"

definition resumed_crawl :: "int \<Rightarrow> int \<Rightarrow> crawl" where
  "resumed_crawl c n =
     \<lparr> mem = \<lparr>completed_categories = [], category_pages = [(c, n)]\<rparr>,
       ckpt = [Written \<lparr>completed_categories = [], category_pages = [(c, n)]\<rparr>],
       gets = [], sink = [], tbl = [] \<rparr>"


definition dead_site :: site where
  "dead_site = \<lparr> size_srv = (\<lambda>i. Response 404 bare_page), page_srv = (\<lambda>p i. Response 404 bare_page),
                 db_ok = (\<lambda>p. True) \<rparr>"

text \<open>\<open>worker\<close>: the effect of one worker on the state, its result dropped.\<close>

definition worker :: "pylib \<Rightarrow> site \<Rightarrow> int \<Rightarrow> ustring \<Rightarrow> crawl \<Rightarrow> int \<Rightarrow> crawl" where
  "worker L env cid cslug st p = snd (process_page L env cid cslug p st)"

text \<open>
  \<open>scheduled\<close>: the pages \<open>process_category_async\<close> creates tasks for,
  \<open>range(start_page, total_pages + 1)\<close>, in the order of creation.
\<close>

definition scheduled :: "pylib \<Rightarrow> site \<Rightarrow> int \<Rightarrow> crawl \<Rightarrow> int list" where
  "scheduled L env cid st = [start_page (mem st) cid..async_get_total_pages L (size_srv env)]"

section \<open>Properties of the price normaliser\<close>

lemma search_none_iff: "PRICE_RE_search L s = None \<longleftrightarrow> (\<forall>c\<in>set s. \<not> is_digit L c)"
  by (induction s) (auto simp: PRICE_RE_match_def split: option.splits)

lemma search_skip: "\<forall>c\<in>set pre. \<not> is_digit L c \<Longrightarrow> PRICE_RE_search L (pre @ s) = PRICE_RE_search L s"
  by (induction pre) (auto simp: PRICE_RE_match_def)

lemma isspace_consts: "py_isspace 0x20" "py_isspace 0xA0"
  by (simp_all add: py_isspace_def)

lemma nbsp_digit: "unicode_ok L \<Longrightarrow> is_digit L (if c = 0xA0 then 0x20 else c) = is_digit L c"
  using isspace_consts by (auto simp: unicode_ok_def)

lemma nbsp_run_char: "price_run_char L (if c = 0xA0 then 0x20 else c) = price_run_char L c"
  using isspace_consts by (auto simp: price_run_char_def)

lemma fraction_nbsp: "unicode_ok L \<Longrightarrow> price_fraction L (nbsp_to_space s) = price_fraction L s"
  using isspace_consts
  by (auto simp: price_fraction_def nbsp_to_space_def unicode_ok_def split: list.splits)

lemma takeWhile_run: 
  "\<forall>c\<in>set run. P c \<Longrightarrow> (case rest of [] \<Rightarrow> True | c # _ \<Rightarrow> \<not> P c) \<Longrightarrow>
   takeWhile P (run @ rest) = run \<and> dropWhile P (run @ rest) = rest"
  by (induction run) (auto split: list.splits)

lemma parse_price_shape:
  assumes ok: "unicode_ok L"
    and pre: "\<forall>c\<in>set pre. \<not> is_digit L c"
    and d: "is_digit L d"
    and run: "\<forall>c\<in>set run. price_run_char L c"
    and rest: "case rest of [] \<Rightarrow> True | c # _ \<Rightarrow> \<not> price_run_char L c"
  shows "parse_price L (pre @ d # run @ rest) =
           py_float L (filter (\<lambda>c. c \<noteq> 0x20) (d # nbsp_to_space run))
             (case price_fraction L rest of None \<Rightarrow> ustr ''00'' | Some c \<Rightarrow> c)"
proof -
  have d': "(if d = 0xA0 then 0x20 else d) = d"
    using ok d isspace_consts by (auto simp: unicode_ok_def)
  have pre': "\<forall>c\<in>set (nbsp_to_space pre). \<not> is_digit L c"
    using pre ok isspace_consts by (auto simp: nbsp_to_space_def unicode_ok_def)
  have run': "\<forall>c\<in>set (nbsp_to_space run). price_run_char L c"
    using run isspace_consts by (auto simp: nbsp_to_space_def price_run_char_def)
  have rest': "case nbsp_to_space rest of [] \<Rightarrow> True | c # _ \<Rightarrow> \<not> price_run_char L c"
    using rest by (cases rest) (auto simp: nbsp_to_space_def nbsp_run_char)
  have split: "nbsp_to_space (pre @ d # run @ rest) =
      nbsp_to_space pre @ d # nbsp_to_space run @ nbsp_to_space rest"
    using d' by (simp add: nbsp_to_space_def)
  have "PRICE_RE_search L (nbsp_to_space (pre @ d # run @ rest)) =
      PRICE_RE_match L (d # nbsp_to_space run @ nbsp_to_space rest)"
    using d by (simp add: split search_skip [OF pre'] PRICE_RE_match_def)
  also have "\<dots> = Some (d # nbsp_to_space run, price_fraction L rest)"
    using d takeWhile_run [OF run' rest'] by (simp add: PRICE_RE_match_def fraction_nbsp [OF ok])
  finally show ?thesis
    by (simp add: parse_price_def)
qed

lemma filter_run:
  assumes ok: "unicode_ok L" and run: "\<forall>c\<in>set run. is_digit L c \<or> c = 0x20 \<or> c = 0xA0"
  shows "filter (\<lambda>c. c \<noteq> 0x20) (nbsp_to_space run) = filter (is_digit L) run"
  using run ok isspace_consts
  by (induction run) (auto simp: nbsp_to_space_def unicode_ok_def)

lemma fraction_digits: "price_fraction L s = Some f \<Longrightarrow> list_all (is_digit L) f"
  by (auto simp: price_fraction_def split: list.splits if_splits)

lemma zero_cents: "unicode_ok L \<Longrightarrow> list_all (is_digit L) (ustr ''00'') \<and> digits_value L (ustr ''00'') = 0"
  by (simp add: unicode_ok_def ustr_def is_digit_def digits_value_def)

lemma parse_price_value:
  assumes ok: "unicode_ok L"
    and pre: "\<forall>c\<in>set pre. \<not> is_digit L c"
    and d: "is_digit L d"
    and run: "\<forall>c\<in>set run. is_digit L c \<or> c = 0x20 \<or> c = 0xA0"
    and rest: "case rest of [] \<Rightarrow> True | c # _ \<Rightarrow> \<not> price_run_char L c"
  shows "parse_price L (pre @ d # run @ rest) =
           Some (of_nat (digits_value L (filter (is_digit L) (d # run)))
                 + of_nat (case price_fraction L rest of None \<Rightarrow> 0 | Some f \<Rightarrow> digits_value L f) / 100)"
proof -
  have run': "\<forall>c\<in>set run. price_run_char L c"
    using run isspace_consts by (auto simp: price_run_char_def)
  have d20: "d \<noteq> 0x20"
    using ok d isspace_consts by (auto simp: unicode_ok_def)
  have whole: "filter (\<lambda>c. c \<noteq> 0x20) (d # nbsp_to_space run) = d # filter (is_digit L) run"
    using d20 filter_run [OF ok run] by simp
  have all: "list_all (is_digit L) (d # filter (is_digit L) run)"
    using d by (simp add: list_all_iff)
  show ?thesis
  proof (cases "price_fraction L rest")
    case None
    then show ?thesis
      using parse_price_shape [OF ok pre d run' rest] whole all d zero_cents [OF ok]
      by (simp add: py_float_def)
  next
    case (Some f)
    then show ?thesis
      using parse_price_shape [OF ok pre d run' rest] whole all d fraction_digits [OF Some]
      by (simp add: py_float_def)
  qed
qed

lemma parse_price_other_space:
  assumes ok: "unicode_ok L"
    and pre: "\<forall>c\<in>set pre. \<not> is_digit L c"
    and d: "is_digit L d"
    and run: "\<forall>c\<in>set run. price_run_char L c"
    and bad: "\<exists>c\<in>set run. \<not> is_digit L c \<and> c \<noteq> 0x20 \<and> c \<noteq> 0xA0"
    and rest: "case rest of [] \<Rightarrow> True | c # _ \<Rightarrow> \<not> price_run_char L c"
  shows "parse_price L (pre @ d # run @ rest) = None"
proof -
  obtain c where c: "c \<in> set run" "\<not> is_digit L c" "c \<noteq> 0x20" "c \<noteq> 0xA0"
    using bad by blast
  then have "c \<in> set (filter (\<lambda>c. c \<noteq> 0x20) (d # nbsp_to_space run))"
    by (auto simp: nbsp_to_space_def)
  with c(2) have "\<not> list_all (is_digit L) (filter (\<lambda>c. c \<noteq> 0x20) (d # nbsp_to_space run))"
    unfolding list_all_iff by blast
  then show ?thesis
    using parse_price_shape [OF ok pre d run rest] by (simp add: py_float_def)
qed

lemma parse_price_no_digit: "\<forall>c\<in>set txt. \<not> is_digit L c \<Longrightarrow> unicode_ok L \<Longrightarrow> parse_price L txt = None"
proof -
  assume a: "\<forall>c\<in>set txt. \<not> is_digit L c" and ok: "unicode_ok L"
  have "\<forall>c\<in>set (nbsp_to_space txt). \<not> is_digit L c"
    using a ok isspace_consts by (auto simp: nbsp_to_space_def unicode_ok_def)
  then have "PRICE_RE_search L (nbsp_to_space txt) = None"
    by (simp add: search_none_iff)
  then show ?thesis by (simp add: parse_price_def)
qed


lemma dropWhile_head: "case dropWhile P xs of [] \<Rightarrow> True | c # _ \<Rightarrow> \<not> P c"
  by (induction xs) auto

lemma plain_run_eq:
  assumes "list_all (plain_run_char L) (takeWhile (price_run_char L) xs)"
  shows "takeWhile (plain_run_char L) xs = takeWhile (price_run_char L) xs
       \<and> dropWhile (plain_run_char L) xs = dropWhile (price_run_char L) xs"
  using assms isspace_consts
  by (induction xs) (auto simp: plain_run_char_def price_run_char_def)

lemma parse_price_char:
  assumes ok: "unicode_ok L"
  shows "parse_price L txt =
           (if list_all (plain_run_char L) (first_run L txt) then spec_parse_price L txt else None)"
proof (cases "dropWhile (\<lambda>c. \<not> is_digit L c) txt")
  case Nil
  then have "\<forall>c\<in>set txt. \<not> is_digit L c"
    by (metis (mono_tags, lifting) dropWhile_eq_Nil_conv)
  then have code: "parse_price L txt = None"
    using parse_price_no_digit ok by blast
  have "spec_parse_price L txt = None"
    unfolding spec_parse_price_def Nil by simp
  with code show ?thesis by simp
next
  case (Cons d tl)
  define pre where "pre = takeWhile (\<lambda>c. \<not> is_digit L c) txt"
  define run where "run = takeWhile (price_run_char L) tl"
  define rest where "rest = dropWhile (price_run_char L) tl"
  have decomp: "txt = pre @ d # run @ rest"
    using Cons takeWhile_dropWhile_id [of "\<lambda>c. \<not> is_digit L c" "txt"]
    by (simp add: pre_def run_def rest_def)
  have pre: "\<forall>c\<in>set pre. \<not> is_digit L c"
    unfolding pre_def by (auto dest: set_takeWhileD)
  have d: "is_digit L d"
    using dropWhile_head [of "\<lambda>c. \<not> is_digit L c" "txt"] Cons by simp
  have run: "\<forall>c\<in>set run. price_run_char L c"
    unfolding run_def by (auto dest: set_takeWhileD)
  have rest: "case rest of [] \<Rightarrow> True | c # _ \<Rightarrow> \<not> price_run_char L c"
    unfolding rest_def by (rule dropWhile_head)
  have fr: "first_run L txt = d # run"
    using Cons d by (simp add: first_run_def run_def price_run_char_def)
  show ?thesis
  proof (cases "list_all (plain_run_char L) run")
    case True
    then have plain: "\<forall>c\<in>set run. is_digit L c \<or> c = 0x20 \<or> c = 0xA0"
      by (simp add: list_all_iff plain_run_char_def)
    have eq: "takeWhile (plain_run_char L) tl = run" "dropWhile (plain_run_char L) tl = rest"
      using plain_run_eq [of L tl] True by (simp_all add: run_def rest_def)
    have "spec_parse_price L txt = parse_price L (pre @ d # run @ rest)"
      using parse_price_value [OF ok pre d plain rest] Cons eq
      by (simp add: spec_parse_price_def)
    then show ?thesis
      using True d fr decomp by (simp add: plain_run_char_def)
  next
    case False
    then have bad: "\<exists>c\<in>set run. \<not> is_digit L c \<and> c \<noteq> 0x20 \<and> c \<noteq> 0xA0"
      by (auto simp: list_all_iff plain_run_char_def)
    show ?thesis
      using parse_price_other_space [OF ok pre d run bad rest] False fr decomp by simp
  qed
qed

lemma ok_basic: "unicode_ok basic_lib"
  by (auto simp: unicode_ok_def basic_lib_def ascii_decimal_def is_digit_def py_isspace_def)



lemma basic_digit: "is_digit basic_lib c = (0x30 \<le> c \<and> c \<le> 0x39)"
  by (simp add: is_digit_def basic_lib_def ascii_decimal_def)

lemma basic_decimal: "decimal basic_lib c = (if 0x30 \<le> c \<and> c \<le> 0x39 then Some (c - 0x30) else None)"
  by (simp add: basic_lib_def ascii_decimal_def)



section \<open>Properties of the listing parser\<close>

lemmas parser_eval = parser_items_def feed_def close_parser_def new_parser_def
  handle_starttag_def handle_endtag_def handle_data_def start_item_def inside_starttag_def
  finalize_item_def attr_get_def or_empty_def py_lower_def py_strip_def strip_where_def
  py_isspace_def close_char_li_def close_name_link_def set_product_img_def set_slug_def
  card_events_def ustr_def Let_def rouble_def

lemma price_card: "parse_price basic_lib (ustr ''1 250,50 '' @ [rouble]) = Some (125050 / 100)"
  using parse_price_char [OF ok_basic, of "ustr ''1 250,50 '' @ [rouble]"]
  by (simp add: spec_parse_price_def first_run_def ustr_def basic_digit basic_decimal rouble_def
        plain_run_char_def price_run_char_def py_isspace_def price_fraction_def digits_value_def)

lemma price_request: "parse_price basic_lib (ustr ''on request'') = None"
  by (rule parse_price_no_digit [OF _ ok_basic]) (simp add: ustr_def basic_digit)


lemma items_listing:
  "parser_items basic_lib (listing_page n) = [card_item ''101'' ''Pipe-20x2'' (Some (125050 / 100))]"
  using price_card
  by (simp add: listing_page_def parser_eval card_item_def)

lemma items_no_price:
  "parser_items basic_lib no_price_page = [card_item ''102'' ''Pipe-25x3'' None]"
  using price_request
  by (simp add: no_price_page_def parser_eval card_item_def)

lemma items_bare: "parser_items basic_lib bare_page = []"
  by (simp add: bare_page_def parser_eval)

lemma card_item_sel:
  "name (card_item pid nm pr) = ustr nm"
  "(price (card_item pid nm (Some q)) = None) = False"
  "price (card_item pid nm None) = None"
  by (simp_all add: card_item_def)

lemma ustr_nonempty: "s \<noteq> [] \<Longrightarrow> ustr s \<noteq> []"
  by (simp add: ustr_def)


lemma extract_listing:
  "extract_products_from_html basic_lib (listing_page n) = [card_item ''101'' ''Pipe-20x2'' (Some (125050 / 100))]"
  by (simp add: extract_products_from_html_def items_listing card_item_sel ustr_nonempty)

lemma extract_no_price: "extract_products_from_html basic_lib no_price_page = []"
  by (simp add: extract_products_from_html_def items_no_price card_item_sel)

lemma extract_bare: "extract_products_from_html basic_lib bare_page = []"
  by (simp add: extract_products_from_html_def items_bare)



section \<open>One page: fetch, parse, upsert, checkpoint\<close>

lemma fetch_ok_first:
  "srv 0 = Response 200 h \<Longrightarrow> body h \<noteq> [] \<Longrightarrow>
   async_fetch_listing srv = \<lparr>fetched = Some h, slept = [], requests = 1\<rparr>"
  by (simp add: async_fetch_listing_def eval_nat_numeral)

lemma process_page_failed:
  "fetched (async_fetch_listing (page_srv env page)) = None \<Longrightarrow>
   process_page L env cid cslug page st = (Returned False, st\<lparr>gets := gets st @ [page]\<rparr>)"
  by (simp add: process_page_def)

lemma process_page_empty:
  "fetched (async_fetch_listing (page_srv env page)) = Some h \<Longrightarrow>
   extract_products_from_html L h = [] \<Longrightarrow>
   process_page L env cid cslug page st = (Returned False, st\<lparr>gets := gets st @ [page]\<rparr>)"
  by (simp add: process_page_def)

lemma process_page_raised:
  "fetched (async_fetch_listing (page_srv env page)) = Some h \<Longrightarrow>
   extract_products_from_html L h \<noteq> [] \<Longrightarrow> \<not> db_ok env page \<Longrightarrow>
   process_page L env cid cslug page st =
     (Raised, st\<lparr>gets := gets st @ [page],
                sink := sink st @ [map (make_row L cid cslug) (extract_products_from_html L h)]\<rparr>)"
  by (simp add: process_page_def Let_def)

lemma process_page_done:
  "fetched (async_fetch_listing (page_srv env page)) = Some h \<Longrightarrow>
   extract_products_from_html L h \<noteq> [] \<Longrightarrow> db_ok env page \<Longrightarrow>
   process_page L env cid cslug page st =
     (Returned True,
      st\<lparr>gets := gets st @ [page],
         sink := sink st @ [map (make_row L cid cslug) (extract_products_from_html L h)],
         tbl := upsert_products (map (make_row L cid cslug) (extract_products_from_html L h)) (tbl st),
         mem := (mem st)\<lparr>category_pages := AList.update cid (page + 1) (category_pages (mem st))\<rparr>,
         ckpt := ckpt st @ save_progress
                   ((mem st)\<lparr>category_pages := AList.update cid (page + 1) (category_pages (mem st))\<rparr>)\<rparr>)"
  by (simp add: process_page_def Let_def)

lemma upsert_lookup:
  "map_of (upsert_products rows t) k =
     (case filter (\<lambda>r. sku_value r = k) (rev rows) of
        [] \<Rightarrow> map_of t k
      | r # _ \<Rightarrow> Some (stored_of r))"
  unfolding upsert_products_def
  by (induction rows rule: rev_induct) (auto simp: update_conv')

lemma upsert_row_stored:
  assumes "r \<in> set rows"
  shows "\<exists>r'\<in>set rows. sku_value r' = sku_value r
           \<and> map_of (upsert_products rows t) (sku_value r) = Some (stored_of r')"
proof -
  have "filter (\<lambda>x. sku_value x = sku_value r) (rev rows) \<noteq> []"
    using assms by (auto simp: filter_empty_conv)
  then obtain r' rs where f: "filter (\<lambda>x. sku_value x = sku_value r) (rev rows) = r' # rs"
    by (cases "filter (\<lambda>x. sku_value x = sku_value r) (rev rows)") auto
  then have "r' \<in> set (filter (\<lambda>x. sku_value x = sku_value r) (rev rows))"
    by simp
  then have "r' \<in> set rows" "sku_value r' = sku_value r"
    by auto
  then show ?thesis
    using f by (auto simp: upsert_lookup)
qed

lemma process_page_sink:
  "\<exists>new. sink (snd (process_page L env cid cslug page st)) = sink st @ new
     \<and> (\<forall>batch\<in>set new. \<exists>h. fetched (async_fetch_listing (page_srv env page)) = Some h
            \<and> batch = map (make_row L cid cslug) (extract_products_from_html L h))"
  by (auto simp: process_page_def Let_def split: option.splits)

text \<open>
  Claim C10. Every row of a batch that \<open>process_page\<close> hands to \<open>upsert_products\<close>
  is built from an item the parser's filter retained: the value bound to the column
  \<open>sku\<close> is the row's \<open>name\<close> entry, which is the extracted name of a parsed item and
  is not empty, and after the upsert the table holds under that key the columns of a row
  of the batch with that name. Whatever \<open>process_page\<close> adds to the sink is such a
  batch.
\<close>

theorem sku_is_item_name:
  "(\<forall>r\<in>set (map (make_row L cid cslug) (extract_products_from_html L h)).
       sku_value r = p_name r \<and> p_name r \<noteq> []
       \<and> (\<exists>it\<in>set (parser_items L h). p_name r = name it)
       \<and> (\<exists>r'\<in>set (map (make_row L cid cslug) (extract_products_from_html L h)).
             p_name r' = p_name r
             \<and> map_of (upsert_products (map (make_row L cid cslug) (extract_products_from_html L h)) t)
                  (p_name r) = Some (stored_of r')))
   \<and> (\<exists>new. sink (snd (process_page L env cid cslug page st)) = sink st @ new
         \<and> (\<forall>batch\<in>set new. \<exists>h. fetched (async_fetch_listing (page_srv env page)) = Some h
                \<and> batch = map (make_row L cid cslug) (extract_products_from_html L h)))"
proof (intro conjI ballI)
  fix r
  assume r: "r \<in> set (map (make_row L cid cslug) (extract_products_from_html L h))"
  then obtain it where it: "it \<in> set (extract_products_from_html L h)" "r = make_row L cid cslug it"
    by auto
  show "sku_value r = p_name r"
    by (simp add: sku_value_def)
  show "p_name r \<noteq> []"
    using it by (simp add: make_row_def extract_products_from_html_def)
  show "\<exists>it\<in>set (parser_items L h). p_name r = name it"
    using it by (auto simp: make_row_def extract_products_from_html_def)
  show "\<exists>r'\<in>set (map (make_row L cid cslug) (extract_products_from_html L h)).
             p_name r' = p_name r
             \<and> map_of (upsert_products (map (make_row L cid cslug) (extract_products_from_html L h)) t)
                  (p_name r) = Some (stored_of r')"
    using upsert_row_stored [OF r, of t] by (simp add: sku_value_def)
next
  show "\<exists>new. sink (snd (process_page L env cid cslug page st)) = sink st @ new
         \<and> (\<forall>batch\<in>set new. \<exists>h. fetched (async_fetch_listing (page_srv env page)) = Some h
                \<and> batch = map (make_row L cid cslug) (extract_products_from_html L h))"
    by (rule process_page_sink)
qed

lemma listing_body: "body (listing_page n) \<noteq> []"
  by (simp add: listing_page_def ustr_def)

lemma steady_fetch:
  "body h \<noteq> [] \<Longrightarrow> fetched (async_fetch_listing (page_srv (steady_site h) p)) = Some h"
  "body h \<noteq> [] \<Longrightarrow> fetched (async_fetch_listing (size_srv (steady_site h))) = Some h"
  by (simp_all add: steady_site_def fetch_ok_first)

lemma steady_db: "db_ok (steady_site h) p"
  by (simp add: steady_site_def)

text \<open>
  Page 1 of a category whose listing holds the card \<open>Pipe-20x2\<close>: one batch of one row
  goes to the sink, keyed by the name.
\<close>

theorem sku_is_item_name_witness:
  "sink (snd (process_page basic_lib (steady_site (listing_page ''3'')) 42 (ustr ''pipes'') 1 fresh_crawl))
     = [[make_row basic_lib 42 (ustr ''pipes'') (card_item ''101'' ''Pipe-20x2'' (Some (125050 / 100)))]]
   \<and> sku_value (make_row basic_lib 42 (ustr ''pipes'') (card_item ''101'' ''Pipe-20x2'' (Some (125050 / 100))))
       = ustr ''Pipe-20x2''
   \<and> map_of (tbl (snd (process_page basic_lib (steady_site (listing_page ''3'')) 42 (ustr ''pipes'') 1 fresh_crawl)))
        (ustr ''Pipe-20x2'')
       = Some (stored_of (make_row basic_lib 42 (ustr ''pipes'') (card_item ''101'' ''Pipe-20x2'' (Some (125050 / 100)))))"
  using sku_is_item_name [of basic_lib 42 "ustr ''pipes''" "listing_page ''3''" "[]"
          "steady_site (listing_page ''3'')" 1 fresh_crawl]
        process_page_done [OF steady_fetch(1) [OF listing_body], of basic_lib "''3''" 1 42 "ustr ''pipes''" fresh_crawl]
  by (simp add: extract_listing steady_db fresh_crawl_def make_row_def card_item_def sku_value_def)

section \<open>Properties of the page fetcher\<close>

lemma fetch_loop_step:
  "fetch_loop srv i (Suc n) b sl =
     (if transient (srv i) then fetch_loop srv (Suc i) n (min (b * 2) 8) (sl @ [b])
      else \<lparr>fetched = ok_text (srv i), slept = sl, requests = Suc i\<rparr>)"
  by (auto simp: transient_def ok_text_def split: attempt.splits)

lemma upt4: "[0..<4] = [0, 1, 2, 3]"
  by (simp add: upt_rec numeral_eq_Suc)

lemma fetch_trace:
  "async_fetch_listing srv =
     \<lparr> fetched = (if retries srv = 4 then None else ok_text (srv (retries srv))),
       slept = map (\<lambda>i. min (1 / 4 * 2 ^ i) 8) [0..<retries srv],
       requests = min 4 (Suc (retries srv)) \<rparr>"
  unfolding async_fetch_listing_def retries_def upt4 ASYNC_BASE_DELAY_def
  by (simp add: numeral_eq_Suc fetch_loop_step upt_rec del: fetch_loop.simps(2))

lemma upt3: "[0..<3] = [0, 1, 2]"
  by (simp add: upt_rec numeral_eq_Suc)

lemma retries_le: "retries srv \<le> 4"
  unfolding retries_def using length_takeWhile_le [of transient "map srv [0..<4]"] by simp

lemma all_less4: "(\<forall>i<4. P i) = (P 0 \<and> P (Suc 0) \<and> P 2 \<and> P (3::nat))"
  by (auto simp: numeral_eq_Suc less_Suc_eq)

lemma retries_all: "(retries srv = 4) = (\<forall>i<4. transient (srv i))"
  unfolding all_less4 by (simp add: retries_def upt4)

lemma retries_none: "\<not> transient (srv 0) \<Longrightarrow> retries srv = 0"
  by (simp add: retries_def upt4)

text \<open>
  Claim C7, as the code has it. A fetch makes at most four requests: one more after each
  transient outcome (status 429, 500, 502, 503 or 504, or one of \<open>ReadTimeout\<close>,
  \<open>ConnectTimeout\<close>, \<open>RemoteProtocolError\<close>, \<open>ConnectError\<close>), sleeping 0.25 s doubled
  each time and never more than 8 s in between. It always returns (the model is total).
  When all four requests meet a transient condition it returns \<open>None\<close>; for a condition
  that is not retried, such as status 404, it returns \<open>None\<close> at once: the two failure
  results are the same value.
\<close>

theorem fetch_retry_policy:
  "requests (async_fetch_listing srv) = min 4 (Suc (retries srv))
   \<and> slept (async_fetch_listing srv) = map (\<lambda>i. min (1 / 4 * 2 ^ i) 8) [0..<retries srv]
   \<and> (\<forall>d\<in>set (slept (async_fetch_listing srv)). d \<le> 8)
   \<and> retries srv \<le> 4
   \<and> ((\<forall>i<4. transient (srv i)) \<longrightarrow>
          fetched (async_fetch_listing srv) = None \<and> requests (async_fetch_listing srv) = 4)
   \<and> (\<not> transient (srv 0) \<and> ok_text (srv 0) = None \<longrightarrow>
          fetched (async_fetch_listing srv) = None \<and> requests (async_fetch_listing srv) = 1
          \<and> slept (async_fetch_listing srv) = [])
   \<and> (\<forall>st\<in>{429, 500, 502, 503, 504}. transient (Response st h))
   \<and> (\<forall>e\<in>{ReadTimeout, ConnectTimeout, RemoteProtocolError, ConnectError}. transient (Raises e))
   \<and> \<not> transient (Response 404 h) \<and> \<not> transient (Raises OtherException)"
proof -
  have c1: "requests (async_fetch_listing srv) = min 4 (Suc (retries srv))"
    by (simp add: fetch_trace)
  have c2: "slept (async_fetch_listing srv) = map (\<lambda>i. min (1 / 4 * 2 ^ i) 8) [0..<retries srv]"
    by (simp add: fetch_trace)
  have c3: "\<forall>d\<in>set (slept (async_fetch_listing srv)). d \<le> 8"
    by (simp add: fetch_trace)
  have c4: "(\<forall>i<4. transient (srv i)) \<longrightarrow>
          fetched (async_fetch_listing srv) = None \<and> requests (async_fetch_listing srv) = 4"
    using retries_all [of srv] by (auto simp: fetch_trace)
  have c5: "\<not> transient (srv 0) \<and> ok_text (srv 0) = None \<longrightarrow>
          fetched (async_fetch_listing srv) = None \<and> requests (async_fetch_listing srv) = 1
          \<and> slept (async_fetch_listing srv) = []"
    by (auto simp: fetch_trace retries_none)
  have c6: "\<forall>st\<in>{429, 500, 502, 503, 504}. transient (Response st h)"
    by (simp add: transient_def retry_status_def)
  have c7: "\<forall>e\<in>{ReadTimeout, ConnectTimeout, RemoteProtocolError, ConnectError}. transient (Raises e)"
    by (simp add: transient_def retry_exception_def)
  have c8: "\<not> transient (Response 404 h) \<and> \<not> transient (Raises OtherException)"
    by (simp add: transient_def retry_status_def retry_exception_def)
  from c1 c2 c3 retries_le [of srv] c4 c5 c6 c7 c8 show ?thesis
    by (intro conjI) blast+
qed

lemma retries_503: "retries (\<lambda>i. Response 503 h) = 4"
  by (simp add: retries_def upt4 transient_def retry_status_def)

lemma retries_503x3:
  "body g \<noteq> [] \<Longrightarrow> retries (\<lambda>i. if i < 3 then Response 503 h else Response 200 g) = 3"
  by (simp add: retries_def upt4 transient_def retry_status_def)

text \<open>
  A server that always answers 503, one that answers 404, and one that answers 503 three
  times and then 200.
\<close>

theorem fetch_retry_policy_witness:
  "fetched (async_fetch_listing (\<lambda>i. Response 503 bare_page)) = None
   \<and> requests (async_fetch_listing (\<lambda>i. Response 503 bare_page)) = 4
   \<and> slept (async_fetch_listing (\<lambda>i. Response 503 bare_page)) = [1 / 4, 1 / 2, 1, 2]
   \<and> fetched (async_fetch_listing (\<lambda>i. Response 404 bare_page)) = None
   \<and> requests (async_fetch_listing (\<lambda>i. Response 404 bare_page)) = 1
   \<and> slept (async_fetch_listing (\<lambda>i. if i < 3 then Response 503 bare_page else Response 200 (listing_page ''3'')))
       = [1 / 4, 1 / 2, 1]
   \<and> fetched (async_fetch_listing (\<lambda>i. if i < 3 then Response 503 bare_page else Response 200 (listing_page ''3'')))
       = Some (listing_page ''3'')"
proof -
  let ?down = "\<lambda>i::nat. Response 503 bare_page"
  let ?gone = "\<lambda>i::nat. Response 404 bare_page"
  let ?late = "\<lambda>i::nat. if i < 3 then Response 503 bare_page else Response 200 (listing_page ''3'')"
  have a: "\<forall>i<4. transient (?down i)"
    by (simp add: transient_def retry_status_def)
  have b: "\<not> transient (?gone 0) \<and> ok_text (?gone 0) = None"
    by (simp add: transient_def retry_status_def ok_text_def)
  note down = fetch_retry_policy [of ?down bare_page]
  note gone = fetch_retry_policy [of ?gone bare_page]
  have d1: "fetched (async_fetch_listing ?down) = None \<and> requests (async_fetch_listing ?down) = 4"
    using down a by blast
  have d2: "slept (async_fetch_listing ?down) = [1 / 4, 1 / 2, 1, 2]"
    using down by (simp add: retries_503 upt4)
  have g1: "fetched (async_fetch_listing ?gone) = None \<and> requests (async_fetch_listing ?gone) = 1"
    using gone b by blast
  have l1: "slept (async_fetch_listing ?late) = [1 / 4, 1 / 2, 1]"
    by (simp add: fetch_trace retries_503x3 listing_body upt3)
  have l2: "fetched (async_fetch_listing ?late) = Some (listing_page ''3'')"
    by (simp add: fetch_trace retries_503x3 listing_body ok_text_def)
  from d1 d2 g1 l1 l2 show ?thesis by blast
qed

text \<open>
  The claim as stated asks for a failure result after exhausted retries that differs
  from the one for a condition that is not retried. What \<open>async_fetch_listing\<close> returns
  is the same in both cases (\<open>None\<close>; its return type is \<open>str | None\<close>), after four
  requests in the one and one request in the other.
\<close>

theorem fetch_failures_alike_counterexample:
  "fetched (async_fetch_listing (\<lambda>i. Response 503 bare_page))
     = fetched (async_fetch_listing (\<lambda>i. Response 404 bare_page))
   \<and> requests (async_fetch_listing (\<lambda>i. Response 503 bare_page)) = 4
   \<and> requests (async_fetch_listing (\<lambda>i. Response 404 bare_page)) = 1"
proof -
  have "retries (\<lambda>i. Response 404 bare_page) = 0"
    by (simp add: retries_none transient_def retry_status_def)
  then show ?thesis
    by (simp add: fetch_trace retries_503 ok_text_def)
qed

section \<open>Advancing and saving the checkpoint\<close>

lemma example_bodies: "body no_price_page \<noteq> []" "body bare_page \<noteq> []" "body two_card_page \<noteq> []"
  by (simp_all add: no_price_page_def bare_page_def two_card_page_def card_text_def ustr_def)

text \<open>
  Claim C3, as the code has it. For a page whose fetch succeeds: when it yields at least
  one retained item and the upsert returns, \<open>process_page\<close> returns \<open>True\<close>, sets the
  category's cursor to \<open>page + 1\<close> and saves it; when it yields no retained item (no
  card at all, or only cards that the filter drops) it returns \<open>False\<close> after
  \<open>if not items\<close> and leaves the checkpoint as it was; when the upsert raises, the
  checkpoint is left as it was too.
\<close>

theorem cursor_after_fetched_page:
  assumes "fetched (async_fetch_listing (page_srv env page)) = Some h"
  shows "(extract_products_from_html L h \<noteq> [] \<and> db_ok env page \<longrightarrow>
            fst (process_page L env cid cslug page st) = Returned True
            \<and> map_of (category_pages (mem (snd (process_page L env cid cslug page st)))) cid = Some (page + 1)
            \<and> last (ckpt (snd (process_page L env cid cslug page st)))
                = Written (mem (snd (process_page L env cid cslug page st))))
       \<and> (extract_products_from_html L h = [] \<longrightarrow>
            fst (process_page L env cid cslug page st) = Returned False
            \<and> mem (snd (process_page L env cid cslug page st)) = mem st
            \<and> ckpt (snd (process_page L env cid cslug page st)) = ckpt st)
       \<and> (extract_products_from_html L h \<noteq> [] \<and> \<not> db_ok env page \<longrightarrow>
            fst (process_page L env cid cslug page st) = Raised
            \<and> mem (snd (process_page L env cid cslug page st)) = mem st
            \<and> ckpt (snd (process_page L env cid cslug page st)) = ckpt st)"
proof (intro conjI impI)
  assume a: "extract_products_from_html L h \<noteq> [] \<and> db_ok env page"
  note d = process_page_done [OF assms, of L cid cslug st]
  show "fst (process_page L env cid cslug page st) = Returned True"
    using a d by simp
  show "map_of (category_pages (mem (snd (process_page L env cid cslug page st)))) cid = Some (page + 1)"
    using a d by (simp add: update_conv')
  show "last (ckpt (snd (process_page L env cid cslug page st)))
                = Written (mem (snd (process_page L env cid cslug page st)))"
    using a d by (simp add: save_progress_def)
next
  assume a: "extract_products_from_html L h = []"
  note e = process_page_empty [OF assms a, of cid cslug st]
  show "fst (process_page L env cid cslug page st) = Returned False"
    using e by simp
  show "mem (snd (process_page L env cid cslug page st)) = mem st"
    using e by simp
  show "ckpt (snd (process_page L env cid cslug page st)) = ckpt st"
    using e by simp
next
  assume a: "extract_products_from_html L h \<noteq> [] \<and> \<not> db_ok env page"
  note r = process_page_raised [OF assms, of L cid cslug st]
  show "fst (process_page L env cid cslug page st) = Raised"
    using a r by simp
  show "mem (snd (process_page L env cid cslug page st)) = mem st"
    using a r by simp
  show "ckpt (snd (process_page L env cid cslug page st)) = ckpt st"
    using a r by simp
qed

text \<open>
  Page 1 with one complete card advances the cursor to 2; page 1 without any card
  leaves the checkpoint file missing.
\<close>

theorem cursor_after_fetched_page_witness:
  "fetched (async_fetch_listing (page_srv (steady_site (listing_page ''3'')) 1)) = Some (listing_page ''3'')
   \<and> fst (process_page basic_lib (steady_site (listing_page ''3'')) 42 (ustr ''pipes'') 1 fresh_crawl) = Returned True
   \<and> map_of (category_pages (mem (snd (process_page basic_lib (steady_site (listing_page ''3'')) 42
                                          (ustr ''pipes'') 1 fresh_crawl)))) 42 = Some 2
   \<and> fst (process_page basic_lib (steady_site bare_page) 42 (ustr ''pipes'') 1 fresh_crawl) = Returned False
   \<and> ckpt (snd (process_page basic_lib (steady_site bare_page) 42 (ustr ''pipes'') 1 fresh_crawl)) = [Missing]"
proof -
  have f1: "fetched (async_fetch_listing (page_srv (steady_site (listing_page ''3'')) 1)) = Some (listing_page ''3'')"
    by (rule steady_fetch(1) [OF listing_body])
  have f2: "fetched (async_fetch_listing (page_srv (steady_site bare_page) 1)) = Some bare_page"
    by (rule steady_fetch(1) [OF example_bodies(2)])
  have a: "fst (process_page basic_lib (steady_site (listing_page ''3'')) 42 (ustr ''pipes'') 1 fresh_crawl) = Returned True
     \<and> map_of (category_pages (mem (snd (process_page basic_lib (steady_site (listing_page ''3'')) 42
                                          (ustr ''pipes'') 1 fresh_crawl)))) 42 = Some 2"
    using cursor_after_fetched_page [OF f1, of basic_lib 42 "ustr ''pipes''" fresh_crawl]
    by (simp add: extract_listing steady_db)
  have b: "fst (process_page basic_lib (steady_site bare_page) 42 (ustr ''pipes'') 1 fresh_crawl) = Returned False
     \<and> ckpt (snd (process_page basic_lib (steady_site bare_page) 42 (ustr ''pipes'') 1 fresh_crawl)) = [Missing]"
    using cursor_after_fetched_page [OF f2, of basic_lib 42 "ustr ''pipes''" fresh_crawl]
    by (simp add: extract_bare fresh_crawl_def)
  from f1 a b show ?thesis by blast
qed

text \<open>
  The claim as stated fails on \<open>no_price_page\<close>: the fetch succeeds, the parser finds a
  card, the filter drops it for its missing price, and the cursor of category 42 is not
  advanced to 2: nothing is written.
\<close>

theorem invalid_items_page_counterexample:
  "fetched (async_fetch_listing (page_srv (steady_site no_price_page) 1)) = Some no_price_page
   \<and> parser_items basic_lib no_price_page = [card_item ''102'' ''Pipe-25x3'' None]
   \<and> extract_products_from_html basic_lib no_price_page = []
   \<and> fst (process_page basic_lib (steady_site no_price_page) 42 (ustr ''pipes'') 1 fresh_crawl) = Returned False
   \<and> map_of (category_pages (mem (snd (process_page basic_lib (steady_site no_price_page) 42
                                          (ustr ''pipes'') 1 fresh_crawl)))) 42 = None
   \<and> ckpt (snd (process_page basic_lib (steady_site no_price_page) 42 (ustr ''pipes'') 1 fresh_crawl)) = [Missing]"
proof -
  have f: "fetched (async_fetch_listing (page_srv (steady_site no_price_page) 1)) = Some no_price_page"
    by (rule steady_fetch(1) [OF example_bodies(1)])
  show ?thesis
    using f process_page_empty [OF f extract_no_price, of 42 "ustr ''pipes''" fresh_crawl]
    by (simp add: items_no_price extract_no_price fresh_crawl_def)
qed


lemma process_page_ckpt:
  "(mem (snd (process_page L env cid cslug page st)) = mem st
      \<and> ckpt (snd (process_page L env cid cslug page st)) = ckpt st)
   \<or> ckpt (snd (process_page L env cid cslug page st))
       = ckpt st @ [Truncated, Written (mem (snd (process_page L env cid cslug page st)))]"
  by (auto simp: process_page_def Let_def save_progress_def split: option.splits)

lemma process_page_true:
  "fst (process_page L env cid cslug page st) = Returned True \<Longrightarrow>
   ckpt (snd (process_page L env cid cslug page st))
       = ckpt st @ [Truncated, Written (mem (snd (process_page L env cid cslug page st)))]
   \<and> map_of (category_pages (mem (snd (process_page L env cid cslug page st)))) cid = Some (page + 1)"
  by (auto simp: process_page_def Let_def save_progress_def update_conv' split: option.splits if_splits)

lemma mark_completed_effect:
  "ckpt (mark_completed cid st) = ckpt st @ [Truncated, Written (mem (mark_completed cid st))]"
  "cid \<in> set (completed_categories (mem (mark_completed cid st)))"
  "map_of (category_pages (mem (mark_completed cid st))) cid = None"
  by (simp_all add: mark_completed_def Let_def save_progress_def delete_conv')

text \<open>
  Claim C2, as the code has it. Every change of the checkpoint (a page advancing the
  cursor, a category marked complete) is followed at once by \<open>save_progress\<close>, and a
  call of \<open>process_page\<close> that does not save leaves \<open>progress\<close> unchanged. A save
  rewrites the checkpoint file in place: the file is truncated, then the complete new
  document is written, after which the file holds the new content. There is no
  temporary file and no replace.
\<close>

theorem checkpoint_rewritten_in_place:
  "save_progress p = [Truncated, Written p]
   \<and> ((mem (snd (process_page L env cid cslug page st)) = mem st
          \<and> ckpt (snd (process_page L env cid cslug page st)) = ckpt st)
        \<or> ckpt (snd (process_page L env cid cslug page st))
            = ckpt st @ save_progress (mem (snd (process_page L env cid cslug page st))))
   \<and> (fst (process_page L env cid cslug page st) = Returned True \<longrightarrow>
         ckpt (snd (process_page L env cid cslug page st))
           = ckpt st @ save_progress (mem (snd (process_page L env cid cslug page st)))
         \<and> map_of (category_pages (mem (snd (process_page L env cid cslug page st)))) cid = Some (page + 1))
   \<and> ckpt (mark_completed cid st) = ckpt st @ save_progress (mem (mark_completed cid st))
   \<and> cid \<in> set (completed_categories (mem (mark_completed cid st)))
   \<and> last (ckpt st @ save_progress p) = Written p"
  using process_page_ckpt [of L env cid cslug page st] process_page_true [of L env cid cslug page st]
    mark_completed_effect [of cid st]
  by (simp add: save_progress_def)

text \<open>The first page of a first run: no file, an empty file, the new document.\<close>

theorem checkpoint_rewritten_in_place_witness:
  "fst (process_page basic_lib (steady_site (listing_page ''3'')) 42 (ustr ''pipes'') 1 fresh_crawl) = Returned True
   \<and> ckpt (snd (process_page basic_lib (steady_site (listing_page ''3'')) 42 (ustr ''pipes'') 1 fresh_crawl))
       = [Missing, Truncated, Written \<lparr>completed_categories = [], category_pages = [(42, 2)]\<rparr>]"
proof -
  have f1: "fetched (async_fetch_listing (page_srv (steady_site (listing_page ''3'')) 1)) = Some (listing_page ''3'')"
    by (rule steady_fetch(1) [OF listing_body])
  note d = process_page_done [OF f1, of basic_lib 42 "ustr ''pipes''" fresh_crawl]
  have t: "fst (process_page basic_lib (steady_site (listing_page ''3'')) 42 (ustr ''pipes'') 1 fresh_crawl) = Returned True"
    using d by (simp add: extract_listing steady_db)
  have m: "mem (snd (process_page basic_lib (steady_site (listing_page ''3'')) 42 (ustr ''pipes'') 1 fresh_crawl))
       = \<lparr>completed_categories = [], category_pages = [(42, 2)]\<rparr>"
    using d by (simp add: extract_listing steady_db fresh_crawl_def)
  show ?thesis
    using checkpoint_rewritten_in_place [of _ basic_lib "steady_site (listing_page ''3'')" 42 "ustr ''pipes''" 1 fresh_crawl]
      t m by (simp add: fresh_crawl_def save_progress_def)
qed

text \<open>
  The claim as stated fails at every save: marking category 42 complete after a resume
  from \<open>{"42": 5}\<close> takes the file from the previous document through a file of zero
  bytes to the new document, and the empty file is neither of the two.
\<close>

theorem truncated_checkpoint_counterexample:
  "ckpt (mark_completed 42 (resumed_crawl 42 5))
     = [Written \<lparr>completed_categories = [], category_pages = [(42, 5)]\<rparr>,
        Truncated,
        Written \<lparr>completed_categories = [42], category_pages = []\<rparr>]
   \<and> \<not> observes_only (Written \<lparr>completed_categories = [], category_pages = [(42, 5)]\<rparr>)
                       (Written \<lparr>completed_categories = [42], category_pages = []\<rparr>)
                       (save_progress \<lparr>completed_categories = [42], category_pages = []\<rparr>)"
  by (simp add: mark_completed_def resumed_crawl_def save_progress_def observes_only_def Let_def)

section \<open>A category run as a sequence of finished workers\<close>

declare run_workers.simps [simp del] completion_order.simps [simp del] findall_pages.simps [simp del]

lemma next_done_in: "pending \<noteq> [] \<Longrightarrow> 0 < k \<Longrightarrow> next_done k pick pending \<in> set pending"
proof -
  assume ne: "pending \<noteq> []" and k: "0 < k"
  then have w: "take k pending \<noteq> []"
    by (cases pending) (auto simp: take_Cons')
  then have "pick (take k pending) mod length (take k pending) < length (take k pending)"
    by (intro mod_less_divisor) (simp only: length_greater_0_conv not_False_eq_True)
  then have "next_done k pick pending \<in> set (take k pending)"
    unfolding next_done_def by (rule nth_mem)
  then show ?thesis
    by (rule in_set_takeD)
qed

lemma run_workers_fold:
  "0 < k \<Longrightarrow>
   run_workers L env cid cslug k pick pending st
     = Some (foldl (worker L env cid cslug) st (completion_order k pick pending))"
proof (induction k pick pending arbitrary: st rule: completion_order.induct)
  case (1 k pick pending)
  show ?case
  proof (cases "pending = []")
    case True
    then show ?thesis
      by (simp add: run_workers.simps completion_order.simps)
  next
    case False
    let ?p = "next_done k pick pending"
    have r: "run_workers L env cid cslug k pick pending st
        = run_workers L env cid cslug k pick (remove1 ?p pending) (worker L env cid cslug st ?p)"
      using False "1.prems" by (subst run_workers.simps) (simp add: worker_def)
    have c: "completion_order k pick pending = ?p # completion_order k pick (remove1 ?p pending)"
      using False "1.prems" by (subst completion_order.simps) simp
    have "run_workers L env cid cslug k pick (remove1 ?p pending) (worker L env cid cslug st ?p)
        = Some (foldl (worker L env cid cslug) (worker L env cid cslug st ?p)
                  (completion_order k pick (remove1 ?p pending)))"
      using False "1.prems" by (intro "1.IH") simp_all
    then show ?thesis
      unfolding r c by simp
  qed
qed

lemma completion_order_mset: "0 < k \<Longrightarrow> mset (completion_order k pick pending) = mset pending"
proof (induction k pick pending rule: completion_order.induct)
  case (1 k pick pending)
  show ?case
  proof (cases "pending = []")
    case True
    then show ?thesis by (simp add: completion_order.simps)
  next
    case False
    with 1 have "mset (completion_order k pick (remove1 (next_done k pick pending) pending))
        = mset pending - {#next_done k pick pending#}"
      by simp
    moreover have "next_done k pick pending \<in># mset pending"
      using next_done_in [OF False "1.prems"] by simp
    ultimately show ?thesis
      using False "1.prems" by (subst completion_order.simps) simp
  qed
qed

lemma completion_order_sequential: "completion_order (Suc 0) pick pending = pending"
proof (induction pending)
  case Nil
  then show ?case by (simp add: completion_order.simps)
next
  case (Cons p ps)
  have "next_done (Suc 0) pick (p # ps) = p"
    by (simp add: next_done_def)
  with Cons show ?case
    by (subst completion_order.simps) simp
qed

lemma written_append: "written (xs @ ys) = written xs @ written ys"
  by (induction xs rule: written.induct) auto

lemma worker_by_ok:
  "page_ok L env p \<Longrightarrow>
     mem (worker L env cid cslug st p)
       = (mem st)\<lparr>category_pages := AList.update cid (p + 1) (category_pages (mem st))\<rparr>
     \<and> ckpt (worker L env cid cslug st p) = ckpt st @ [Truncated, Written (mem (worker L env cid cslug st p))]"
  "\<not> page_ok L env p \<Longrightarrow>
     mem (worker L env cid cslug st p) = mem st \<and> ckpt (worker L env cid cslug st p) = ckpt st"
  "gets (worker L env cid cslug st p) = gets st @ [p]"
  by (auto simp: worker_def process_page_def page_ok_def Let_def save_progress_def split: option.splits)

lemma worker_cursor_log:
  "cursor_log cid (worker L env cid cslug st p)
     = cursor_log cid st @ (if page_ok L env p then [Some (p + 1)] else [])"
proof (cases "page_ok L env p")
  case True
  from worker_by_ok(1) [OF True, of cid cslug st] show ?thesis
    using True by (simp add: cursor_log_def written_append update_conv')
next
  case False
  from worker_by_ok(2) [OF False, of cid cslug st] show ?thesis
    using False by (simp add: cursor_log_def)
qed

lemma fold_cursor_log:
  "cursor_log cid (foldl (worker L env cid cslug) st ps)
     = cursor_log cid st @ map (\<lambda>p. Some (p + 1)) (filter (page_ok L env) ps)"
  by (induction ps arbitrary: st rule: rev_induct) (simp_all add: worker_cursor_log)

lemma fold_gets: "gets (foldl (worker L env cid cslug) st ps) = gets st @ ps"
  by (induction ps arbitrary: st rule: rev_induct) (simp_all add: worker_by_ok(3))

lemma mark_completed_log:
  "cursor_log cid (mark_completed cid st) = cursor_log cid st @ [None]"
  "gets (mark_completed cid st) = gets st"
  by (simp_all add: mark_completed_def cursor_log_def written_append save_progress_def Let_def delete_conv')

lemma category_run:
  assumes k: "0 < k" and total: "0 < async_get_total_pages L (size_srv env)"
  shows "process_category_async L env cid cslug k pick st =
           Some (mark_completed cid
                  (foldl (worker L env cid cslug) (st\<lparr>gets := gets st @ [1]\<rparr>)
                     (completion_order k pick
                        [start_page (mem st) cid..async_get_total_pages L (size_srv env)])))"
  using total by (simp add: process_category_async_def Let_def run_workers_fold [OF k])

lemma category_skip:
  "async_get_total_pages L (size_srv env) \<le> 0 \<Longrightarrow>
   process_category_async L env cid cslug k pick st = Some (st\<lparr>gets := gets st @ [1]\<rparr>)"
  by (simp add: process_category_async_def Let_def)

lemma total_listing3: "get_total_pages basic_lib (listing_page ''3'') = 3"
  by (simp add: get_total_pages_def listing_page_def card_text_def ustr_def findall_pages.simps
      basic_digit py_isspace_def digits_value_def basic_decimal Let_def)


lemma total_bare: "get_total_pages basic_lib bare_page = 1"
  by (simp add: get_total_pages_def bare_page_def ustr_def findall_pages.simps Let_def)

lemma order_312: "completion_order 10 (\<lambda>w. if length w = 3 then 2 else 0) [1, 2, 3] = [3, 1, 2]"
  by (simp add: completion_order.simps next_done_def)

lemma order_first:
  "completion_order 10 (\<lambda>w. 0) [5, 6] = [5, 6]"
  "completion_order 10 (\<lambda>w. 0) [1, 2, 3] = [1, 2, 3]"
  "completion_order 10 (\<lambda>w. 0) [1] = [1]"
  by (simp_all add: completion_order.simps next_done_def)

lemma upto_examples: "[1..3] = [1, 2, (3::int)]" "[5..6] = [5, (6::int)]" "[1..1] = [1::int]"
  by (simp_all add: upto_rec_numeral upto.simps)

lemma steady_total:
  "body h \<noteq> [] \<Longrightarrow> async_get_total_pages L (size_srv (steady_site h)) = get_total_pages L h"
  by (simp add: async_get_total_pages_def steady_fetch(2))

lemma steady_page_ok: "page_ok basic_lib (steady_site (listing_page n)) p"
  by (simp add: page_ok_def steady_fetch(1) [OF listing_body] extract_listing steady_db)





lemma dead_total: "async_get_total_pages L (size_srv dead_site) = 0"
proof -
  have "retries (\<lambda>i. Response 404 bare_page) = 0"
    by (simp add: retries_none transient_def retry_status_def)
  then show ?thesis
    by (simp add: async_get_total_pages_def dead_site_def fetch_trace ok_text_def)
qed

lemma fetched_body: "fetched (async_fetch_listing srv) = Some h \<Longrightarrow> body h \<noteq> []"
  by (auto simp: fetch_trace ok_text_def split: if_splits attempt.splits)

lemma sorted_succ: "sorted (map (\<lambda>p. p + 1) xs) = sorted (xs :: int list)"
  by (simp add: sorted_map)

lemma fresh_log: "cursor_log c fresh_crawl = []" "gets fresh_crawl = []"
  "start_page (mem fresh_crawl) c = 1"
  by (simp_all add: cursor_log_def fresh_crawl_def start_page_def)


lemma category_run_facts:
  assumes k: "0 < k" and total: "0 < async_get_total_pages L (size_srv env)"
  shows "\<exists>st'. process_category_async L env cid cslug k pick st = Some st'
           \<and> cursor_log cid st' = cursor_log cid st
                @ map (\<lambda>p. Some (p + 1))
                    (filter (page_ok L env) (completion_order k pick (scheduled L env cid st)))
                @ [None]
           \<and> gets st' = gets st @ 1 # completion_order k pick (scheduled L env cid st)
           \<and> cid \<in> set (completed_categories (mem st'))
           \<and> map_of (category_pages (mem st')) cid = None
           \<and> last (ckpt st') = Written (mem st')"
proof -
  let ?mid = "foldl (worker L env cid cslug) (st\<lparr>gets := gets st @ [1]\<rparr>)
                (completion_order k pick (scheduled L env cid st))"
  have run: "process_category_async L env cid cslug k pick st = Some (mark_completed cid ?mid)"
    using category_run [OF k total] by (simp add: scheduled_def)
  have log: "cursor_log cid ?mid = cursor_log cid st
                @ map (\<lambda>p. Some (p + 1))
                    (filter (page_ok L env) (completion_order k pick (scheduled L env cid st)))"
  proof -
    have "cursor_log cid (st\<lparr>gets := gets st @ [1]\<rparr>) = cursor_log cid st"
      by (simp add: cursor_log_def)
    then show ?thesis
      by (simp only: fold_cursor_log)
  qed
  have g: "gets ?mid = gets st @ 1 # completion_order k pick (scheduled L env cid st)"
    by (simp add: fold_gets)
  show ?thesis
    using run log g mark_completed_effect [of cid ?mid]
    by (simp add: mark_completed_log)
qed

section \<open>Properties of a category run\<close>

text \<open>
  Claim C1, as the code has it. In a run of a category with at least one page, each
  worker that finishes with success saves \<open>category_pages[id] = page + 1\<close> for its own
  page, whatever pages are still unfinished: the saved values are, in the order of
  completion, the successors of the pages that succeeded, followed by the removal of the
  entry when the category is marked complete. Every scheduled page finishes exactly
  once. The saved values are non-decreasing exactly when the successful pages finish in
  non-decreasing order, as they do with a page concurrency of 1, where the pages finish
  in the order scheduled.
\<close>

theorem cursor_is_last_finished_plus_one:
  assumes "0 < k" and "0 < async_get_total_pages L (size_srv env)"
  shows "\<exists>st'. process_category_async L env cid cslug k pick st = Some st'
           \<and> cursor_log cid st' = cursor_log cid st
                @ map (\<lambda>p. Some (p + 1))
                    (filter (page_ok L env) (completion_order k pick (scheduled L env cid st)))
                @ [None]
           \<and> mset (completion_order k pick (scheduled L env cid st)) = mset (scheduled L env cid st)
           \<and> sorted (map (\<lambda>p. p + 1)
                        (filter (page_ok L env) (completion_order k pick (scheduled L env cid st))))
               = sorted (filter (page_ok L env) (completion_order k pick (scheduled L env cid st)))
           \<and> completion_order (Suc 0) pick (scheduled L env cid st) = scheduled L env cid st"
  using category_run_facts [OF assms, of cid cslug pick st] completion_order_mset [OF assms(1)]
  by (auto simp: sorted_succ completion_order_sequential)

lemma listing3_total: "async_get_total_pages basic_lib (size_srv (steady_site (listing_page ''3''))) = 3"
  by (simp add: steady_total listing_body total_listing3)


lemma listing3_fresh: "scheduled basic_lib (steady_site (listing_page ''3'')) c fresh_crawl = [1, 2, 3]"
  by (simp add: scheduled_def listing3_total fresh_log upto_examples)

text \<open>Three pages that finish in the order 1, 2, 3 save the cursors 2, 3, 4.\<close>

theorem cursor_is_last_finished_plus_one_witness:
  "(0::nat) < 10 \<and> 0 < async_get_total_pages basic_lib (size_srv (steady_site (listing_page ''3'')))
   \<and> map_option (cursor_log 42)
        (process_category_async basic_lib (steady_site (listing_page ''3'')) 42 (ustr ''pipes'') 10
           (\<lambda>w. 0) fresh_crawl)
       = Some [Some 2, Some 3, Some 4, None]"
proof -
  have t: "0 < async_get_total_pages basic_lib (size_srv (steady_site (listing_page ''3'')))"
    by (simp add: listing3_total)
  have k: "(0::nat) < 10" by simp
  from cursor_is_last_finished_plus_one [OF k t, of 42 "ustr ''pipes''" "\<lambda>w. 0" fresh_crawl]
  obtain st' where
    "process_category_async basic_lib (steady_site (listing_page ''3'')) 42 (ustr ''pipes'') 10
           (\<lambda>w. 0) fresh_crawl = Some st'"
    "cursor_log 42 st' = cursor_log 42 fresh_crawl
                @ map (\<lambda>p. Some (p + 1))
                    (filter (page_ok basic_lib (steady_site (listing_page ''3'')))
                       (completion_order 10 (\<lambda>w. 0) (scheduled basic_lib (steady_site (listing_page ''3'')) 42 fresh_crawl)))
                @ [None]"
    by blast
  then show ?thesis
    using t by (simp add: listing3_fresh order_first steady_page_ok fresh_log)
qed

text \<open>
  The claim as stated fails when page 3 of three pages in flight finishes first, then
  page 1, then page 2. After page 3 the saved cursor is 4, while the lowest unfinished
  page is 1; after page 1 the saved cursor is 2, smaller than the 4 saved before.
\<close>

theorem cursor_regresses_counterexample:
  "map_option (cursor_log 42)
     (process_category_async basic_lib (steady_site (listing_page ''3'')) 42 (ustr ''pipes'')
        MAX_CONCURRENT_PAGES_PER_CATEGORY (\<lambda>w. if length w = 3 then 2 else 0) fresh_crawl)
     = Some [Some 4, Some 2, Some 3, None]
   \<and> completion_order MAX_CONCURRENT_PAGES_PER_CATEGORY (\<lambda>w. if length w = 3 then 2 else 0) [1, 2, 3]
       = [3, 1, 2]
   \<and> min_unfinished (remove1 3 [1, 2, 3]) = Some 1
   \<and> \<not> sorted [4, 2, 3 :: int]"
proof -
  have t: "0 < async_get_total_pages basic_lib (size_srv (steady_site (listing_page ''3'')))"
    by (simp add: listing3_total)
  have k: "(0::nat) < 10" by simp
  from category_run_facts [OF k t, of 42 "ustr ''pipes''" "\<lambda>w. if length w = 3 then 2 else 0" fresh_crawl]
  obtain st' where
    "process_category_async basic_lib (steady_site (listing_page ''3'')) 42 (ustr ''pipes'') 10
           (\<lambda>w. if length w = 3 then 2 else 0) fresh_crawl = Some st'"
    "cursor_log 42 st' = cursor_log 42 fresh_crawl
                @ map (\<lambda>p. Some (p + 1))
                    (filter (page_ok basic_lib (steady_site (listing_page ''3'')))
                       (completion_order 10 (\<lambda>w. if length w = 3 then 2 else 0)
                          (scheduled basic_lib (steady_site (listing_page ''3'')) 42 fresh_crawl)))
                @ [None]"
    by blast
  then have "map_option (cursor_log 42)
     (process_category_async basic_lib (steady_site (listing_page ''3'')) 42 (ustr ''pipes'')
        10 (\<lambda>w. if length w = 3 then 2 else 0) fresh_crawl)
     = Some [Some 4, Some 2, Some 3, None]"
    by (simp add: listing3_fresh order_312 steady_page_ok fresh_log)
  moreover have "min_unfinished (remove1 3 [1, 2, 3]) = Some 1"
    by (simp add: min_unfinished_def)
  ultimately show ?thesis
    by (simp add: MAX_CONCURRENT_PAGES_PER_CATEGORY_def order_312)
qed



lemma worker_completed:
  "completed_categories (mem (worker L env cid cslug st p)) = completed_categories (mem st)"
  by (cases "page_ok L env p") (simp_all add: worker_by_ok)

lemma fold_completed:
  "completed_categories (mem (foldl (worker L env cid cslug) st ps)) = completed_categories (mem st)"
  by (induction ps arbitrary: st rule: rev_induct) (simp_all add: worker_completed)









lemma total_no_markers:
  "body h \<noteq> [] \<Longrightarrow> findall_pages L (body h) = [] \<Longrightarrow> get_total_pages L h = 1"
  by (simp add: get_total_pages_def)

text \<open>
  Claim C6, as the code has it. When page 1 cannot be fetched, the category counts as
  having 0 pages and \<open>process_category_async\<close> returns at \<open>if total_pages <= 0\<close>: no
  error, no change of the checkpoint, and the category is not marked complete. When
  page 1 is fetched and has no pagination marker, \<open>get_total_pages\<close> gives 1 (as its
  docstring says), whether or not the page has items: the run processes the pages from
  the resume cursor to 1 and then marks the category complete and saves the
  checkpoint.
\<close>

theorem first_page_outcomes:
  "(fetched (async_fetch_listing (size_srv env)) = None \<longrightarrow>
      async_get_total_pages L (size_srv env) = 0
      \<and> process_category_async L env cid cslug k pick st = Some (st\<lparr>gets := gets st @ [1]\<rparr>))
   \<and> (fetched (async_fetch_listing (size_srv env)) = Some h \<and> findall_pages L (body h) = [] \<longrightarrow>
        async_get_total_pages L (size_srv env) = 1
        \<and> (0 < k \<longrightarrow>
             (\<exists>st'. process_category_async L env cid cslug k pick st = Some st'
                \<and> gets st' = gets st @ 1 # completion_order k pick [start_page (mem st) cid..1]
                \<and> cid \<in> set (completed_categories (mem st'))
                \<and> map_of (category_pages (mem st')) cid = None
                \<and> last (ckpt st') = Written (mem st'))))"
proof (intro conjI impI)
  assume a: "fetched (async_fetch_listing (size_srv env)) = None"
  then show t0: "async_get_total_pages L (size_srv env) = 0"
    by (simp add: async_get_total_pages_def)
  then show "process_category_async L env cid cslug k pick st = Some (st\<lparr>gets := gets st @ [1]\<rparr>)"
    by (intro category_skip) simp
next
  assume a: "fetched (async_fetch_listing (size_srv env)) = Some h \<and> findall_pages L (body h) = []"
  then have b: "body h \<noteq> []"
    using fetched_body by blast
  show t1: "async_get_total_pages L (size_srv env) = 1"
    using a b by (simp add: async_get_total_pages_def total_no_markers)
  assume k: "0 < k"
  have t: "0 < async_get_total_pages L (size_srv env)"
    using t1 by simp
  from category_run_facts [OF k t, of cid cslug pick st]
  show "\<exists>st'. process_category_async L env cid cslug k pick st = Some st'
                \<and> gets st' = gets st @ 1 # completion_order k pick [start_page (mem st) cid..1]
                \<and> cid \<in> set (completed_categories (mem st'))
                \<and> map_of (category_pages (mem st')) cid = None
                \<and> last (ckpt st') = Written (mem st')"
    by (auto simp: scheduled_def t1)
qed

lemma dead_size_fetch: "fetched (async_fetch_listing (size_srv dead_site)) = None"
proof -
  have "retries (\<lambda>i. Response 404 bare_page) = 0"
    by (simp add: retries_none transient_def retry_status_def)
  then show ?thesis
    by (simp add: dead_site_def fetch_trace ok_text_def)
qed

lemma bare_no_markers: "findall_pages L (body bare_page) = []"
  by (simp add: bare_page_def ustr_def findall_pages.simps)

text \<open>
  A site that answers 404 to everything, and one whose page 1 has neither a pagination
  link nor a card (page 1 is fetched twice: for the page count and by its worker).
\<close>

theorem first_page_outcomes_witness:
  "fetched (async_fetch_listing (size_srv dead_site)) = None
   \<and> process_category_async basic_lib dead_site 42 (ustr ''pipes'') 10 (\<lambda>w. 0) fresh_crawl
       = Some (fresh_crawl\<lparr>gets := [1]\<rparr>)
   \<and> fetched (async_fetch_listing (size_srv (steady_site bare_page))) = Some bare_page
   \<and> findall_pages basic_lib (body bare_page) = []
   \<and> (0::nat) < 10
   \<and> map_option gets
        (process_category_async basic_lib (steady_site bare_page) 42 (ustr ''pipes'') 10 (\<lambda>w. 0) fresh_crawl)
       = Some [1, 1]
   \<and> map_option (\<lambda>s. completed_categories (mem s))
        (process_category_async basic_lib (steady_site bare_page) 42 (ustr ''pipes'') 10 (\<lambda>w. 0) fresh_crawl)
       = Some [42]"
proof -
  have f: "fetched (async_fetch_listing (size_srv (steady_site bare_page))) = Some bare_page"
    by (rule steady_fetch(2) [OF example_bodies(2)])
  have k: "(0::nat) < 10" by simp
  note dead = first_page_outcomes [where env = dead_site and L = basic_lib and cid = 42
      and cslug = "ustr ''pipes''" and k = 10 and pick = "\<lambda>w. 0" and st = fresh_crawl and h = bare_page]
  note bare = first_page_outcomes [where env = "steady_site bare_page" and L = basic_lib and cid = 42
      and cslug = "ustr ''pipes''" and k = 10 and pick = "\<lambda>w. 0" and st = fresh_crawl and h = bare_page]
  have d: "process_category_async basic_lib dead_site 42 (ustr ''pipes'') 10 (\<lambda>w. 0) fresh_crawl
       = Some (fresh_crawl\<lparr>gets := [1]\<rparr>)"
    using dead dead_size_fetch by (simp add: fresh_log)
  from bare f bare_no_markers [of basic_lib] k
  obtain st' where st': "process_category_async basic_lib (steady_site bare_page) 42 (ustr ''pipes'') 10 (\<lambda>w. 0) fresh_crawl = Some st'"
    "gets st' = gets fresh_crawl @ 1 # completion_order 10 (\<lambda>w. 0) [start_page (mem fresh_crawl) 42..1]"
    "42 \<in> set (completed_categories (mem st'))"
    by blast
  have g: "gets st' = [1, 1]"
    using st'(2) by (simp add: fresh_log upto_examples order_first)
  let ?mid = "foldl (worker basic_lib (steady_site bare_page) 42 (ustr ''pipes''))
                (fresh_crawl\<lparr>gets := gets fresh_crawl @ [1]\<rparr>)
                (completion_order 10 (\<lambda>w. 0)
                   [start_page (mem fresh_crawl) 42..async_get_total_pages basic_lib (size_srv (steady_site bare_page))])"
  have t: "0 < async_get_total_pages basic_lib (size_srv (steady_site bare_page))"
    by (simp add: steady_total example_bodies total_bare)
  have run: "process_category_async basic_lib (steady_site bare_page) 42 (ustr ''pipes'') 10 (\<lambda>w. 0) fresh_crawl
      = Some (mark_completed 42 ?mid)"
    by (rule category_run [OF k t])
  have "completed_categories (mem ?mid) = []"
    by (simp only: fold_completed) (simp add: fresh_crawl_def)
  then have c: "completed_categories (mem (mark_completed 42 ?mid)) = [42]"
    by (simp add: mark_completed_def Let_def)
  show ?thesis
    using dead_size_fetch d f bare_no_markers [of basic_lib] st'(1) g run c by simp
qed

text \<open>
  The claim as stated fails on both counts. A category whose page 1 cannot be fetched
  is not marked complete: after the run \<open>completed_categories\<close> is empty and the
  checkpoint file is still missing. A page 1 with no pagination marker and no item
  makes a category of 1 page, not of 0.
\<close>

theorem dead_category_not_completed_counterexample:
  "fetched (async_fetch_listing (size_srv dead_site)) = None
   \<and> map_option (\<lambda>s. completed_categories (mem s))
        (process_category_async basic_lib dead_site 42 (ustr ''pipes'')
           MAX_CONCURRENT_PAGES_PER_CATEGORY (\<lambda>w. 0) fresh_crawl)
       = Some []
   \<and> map_option ckpt
        (process_category_async basic_lib dead_site 42 (ustr ''pipes'')
           MAX_CONCURRENT_PAGES_PER_CATEGORY (\<lambda>w. 0) fresh_crawl)
       = Some [Missing]
   \<and> findall_pages basic_lib (body bare_page) = []
   \<and> parser_items basic_lib bare_page = []
   \<and> async_get_total_pages basic_lib (size_srv (steady_site bare_page)) = 1"
proof -
  have "process_category_async basic_lib dead_site 42 (ustr ''pipes'')
           MAX_CONCURRENT_PAGES_PER_CATEGORY (\<lambda>w. 0) fresh_crawl = Some (fresh_crawl\<lparr>gets := gets fresh_crawl @ [1]\<rparr>)"
    by (intro category_skip) (simp add: dead_total)
  then show ?thesis
    using dead_size_fetch bare_no_markers [of basic_lib] items_bare
    by (simp add: fresh_crawl_def steady_total example_bodies total_bare)
qed

end
